theory Spec2Isabelle
  imports Complex_Main "HOL-Library.Word"
begin

section \<open>The restore engine of etcd-backup-restore\<close>

text \<open>
  A shallow embedding of \<^verbatim>\<open>pkg/types/restorer.go\<close> (the configuration types of package
  \<^verbatim>\<open>types\<close> and the restorer of package \<^verbatim>\<open>restorer\<close>). Go functions become HOL functions
  of the same name. The collaborators the restorer only calls (the etcd clients, the
  object store, the operating system, the codecs and hashes of the Go library) are
  parameters: records of functions over an abstract world state \<open>'s\<close>, which every call
  receives and returns.
\<close>

subsection \<open>Errors and outcomes\<close>

type_synonym byte = "8 word"

text \<open>
  Every \<^verbatim>\<open>fmt.Errorf\<close> of the source is a constructor. \<open>External\<close> is an error value
  handed back by a collaborator; \<open>Wrapped\<close> is \<^verbatim>\<open>fmt.Errorf("<context> ...: %v", err)\<close>,
  the context naming the format string.
\<close>

datatype error =
    External string
  | Wrapped string error
  | MaxCallSendMsgSizeNotPositive
  | MaxFetchersNotPositive
  | QuotaNotPositive
  | UnsupportedAutoCompactionMode
  | UnexpectedEventType
  | RevisionMismatch int int
  | SnapIndexMismatch int int
  | MissingHash
  | HashMismatch "byte list" "byte list"
  | CreateTempFileFailed string
  | DisalarmFailed

text \<open>
  What a call of a Go function that returns \<^verbatim>\<open>error\<close> (or a value and an error) does:
  it returns normally, returns an error, panics (a nil dereference, an index out of
  range), which ends the whole process, or never returns because it waits on a
  channel for ever.
\<close>

datatype 'a outcome = Ok 'a | Failed error | Panic | Blocked

subsection \<open>RestorationConfig and its validation\<close>

text \<open>
  \<^verbatim>\<open>uint\<close>, \<^verbatim>\<open>int\<close> and \<^verbatim>\<open>int64\<close> are 64-bit words; the signed ones are read with
  \<open>sint\<close>.
\<close>

record RestorationConfig =
  InitialCluster :: string
  InitialClusterToken :: string
  DataDir :: string
  TempSnapshotsDir :: string
  Name :: string
  AutoCompactionRetention :: string
  AutoCompactionMode :: string
  InitialAdvertisePeerURLs :: "string list"
  MaxTxnOps :: "64 word"
  MaxRequestBytes :: "64 word"
  MaxCallSendMsgSize :: "64 word"
  EmbeddedEtcdQuotaBytes :: "64 word"
  MaxFetchers :: "64 word"
  SkipHashCheck :: bool

text \<open>
  The functions of other packages that \<^verbatim>\<open>Validate\<close> calls: \<^verbatim>\<open>types.NewURLsMap\<close> and
  \<^verbatim>\<open>types.NewURLs\<close> of etcd (only their error is used) and \<^verbatim>\<open>path.Clean\<close> of the Go
  library.
\<close>

record PathLib =
  NewURLsMap :: "string \<Rightarrow> error option"
  NewURLs :: "string list \<Rightarrow> error option"
  pathClean :: "string \<Rightarrow> string"

text \<open>
  \<^verbatim>\<open>func (c *RestorationConfig) Validate() error\<close>: the result is the error and the
  config the receiver points to afterwards.
\<close>

definition Validate :: "PathLib \<Rightarrow> RestorationConfig \<Rightarrow> error option \<times> RestorationConfig" where
  "Validate lib c =
     (case NewURLsMap lib (InitialCluster c) of
        Some err \<Rightarrow> (Some (Wrapped ''failed creating url map for restore cluster'' err), c)
      | None \<Rightarrow>
     (case NewURLs lib (InitialAdvertisePeerURLs c) of
        Some err \<Rightarrow> (Some (Wrapped ''failed parsing peers urls for restore cluster'' err), c)
      | None \<Rightarrow>
        if sint (MaxCallSendMsgSize c) \<le> 0 then (Some MaxCallSendMsgSizeNotPositive, c)
        else if unat (MaxFetchers c) \<le> 0 then (Some MaxFetchersNotPositive, c)
        else if sint (EmbeddedEtcdQuotaBytes c) \<le> 0 then (Some QuotaNotPositive, c)
        else if AutoCompactionMode c \<noteq> ''periodic'' \<and> AutoCompactionMode c \<noteq> ''revision''
          then (Some UnsupportedAutoCompactionMode, c)
        else (None, c\<lparr>DataDir := pathClean lib (DataDir c),
                       TempSnapshotsDir := pathClean lib (TempSnapshotsDir c)\<rparr>)))"

text \<open>A library double for witnesses: every URL parses, and cleaning strips one trailing slash.\<close>

definition demoLib :: PathLib where
  "demoLib = \<lparr>NewURLsMap = (\<lambda>_. None), NewURLs = (\<lambda>_. None),
     pathClean = (\<lambda>p. if p \<noteq> [] \<and> last p = CHR ''/'' then butlast p else p)\<rparr>"

definition demoConfig :: RestorationConfig where
  "demoConfig = \<lparr>InitialCluster = ''default=http://localhost:2380'',
     InitialClusterToken = ''etcd-cluster'', DataDir = ''default.etcd/'',
     TempSnapshotsDir = ''default.restoration.tmp'', Name = ''default'',
     AutoCompactionRetention = ''30m'', AutoCompactionMode = ''periodic'',
     InitialAdvertisePeerURLs = [''http://localhost:2380''],
     MaxTxnOps = 10240, MaxRequestBytes = 10485760, MaxCallSendMsgSize = 10485760,
     EmbeddedEtcdQuotaBytes = 8589934592, MaxFetchers = 6, SkipHashCheck = False\<rparr>"

subsection \<open>Snapshots, events and the etcd clients\<close>

text \<open>
  Modelled from the spec: the declaration of \<^verbatim>\<open>brtypes.Snapshot\<close> is not part of the
  sources at hand; these are the attributes the spec gives a snapshot handle, under the
  names the restorer uses. Revisions are \<^verbatim>\<open>int64\<close>; the restorer only compares them, so
  they are read as integers.
\<close>

record Snapshot =
  Kind :: string
  SnapDir :: string
  SnapName :: string
  StartRevision :: int
  LastRevision :: int
  CompressionSuffix :: string

text \<open>
  \<^verbatim>\<open>mvccpb.KeyValue\<close>, \<^verbatim>\<open>mvccpb.Event\<close> (the type is an \<^verbatim>\<open>int32\<close> with \<^verbatim>\<open>PUT = 0\<close> and
  \<^verbatim>\<open>DELETE = 1\<close>) and \<^verbatim>\<open>brtypes.Event\<close>. The two pointers of an event may be nil, which
  is \<open>None\<close>.
\<close>

record KeyValue =
  Key :: string
  Value :: string
  ModRevision :: int

definition PUT :: "32 word" where "PUT = 0"

definition DELETE :: "32 word" where "DELETE = 1"

record MvccEvent =
  Type :: "32 word"
  Kv :: "KeyValue option"

record Event =
  EtcdEvent :: "MvccEvent option"
  Time :: int

datatype Op = OpPut string string | OpDelete string

text \<open>
  The calls the restorer makes on \<^verbatim>\<open>client.KVCloser\<close>: \<open>Txn ops\<close> is
  \<^verbatim>\<open>Txn(ctx).Then(ops...).Commit()\<close>, \<open>Get key lastRev\<close> is \<^verbatim>\<open>Get(ctx, key)\<close> (with
  \<^verbatim>\<open>WithLastRev()\<close> when \<open>lastRev\<close>) and yields the revision of the response header,
  \<open>Compact rev\<close> is \<^verbatim>\<open>Compact(ctx, rev, WithCompactPhysical())\<close>.
\<close>

record 's KVClient =
  Txn :: "Op list \<Rightarrow> 's \<Rightarrow> 's \<times> error option"
  Get :: "string \<Rightarrow> bool \<Rightarrow> 's \<Rightarrow> 's \<times> (error + int)"
  Compact :: "int \<Rightarrow> 's \<Rightarrow> 's \<times> error option"

subsection \<open>applyEventsToEtcd\<close>

text \<open>
  The loop of \<^verbatim>\<open>applyEventsToEtcd\<close> over the events still to come, with the variables
  \<^verbatim>\<open>lastRev\<close> and \<^verbatim>\<open>ops\<close>; the first equation is the commit after the loop.
\<close>

fun applyEventsLoop ::
  "'s KVClient \<Rightarrow> Event list \<Rightarrow> int \<Rightarrow> Op list \<Rightarrow> 's \<Rightarrow> 's \<times> unit outcome" where
  "applyEventsLoop kv [] lastRev ops s =
     (case Txn kv ops s of
        (s', Some err) \<Rightarrow> (s', Failed err)
      | (s', None) \<Rightarrow> (s', Ok ()))"
| "applyEventsLoop kv (e # es) lastRev ops s =
     (case EtcdEvent e of
        None \<Rightarrow> (s, Panic)
      | Some ev \<Rightarrow>
     (case Kv ev of
        None \<Rightarrow> (s, Panic)
      | Some kvp \<Rightarrow>
     (let nextRev = ModRevision kvp in
      (case (if lastRev \<noteq> 0 \<and> nextRev > lastRev
             then (case Txn kv ops s of (s', r) \<Rightarrow> (s', r, []))
             else (s, None, ops)) of
         (s', Some err, ops') \<Rightarrow> (s', Failed err)
       | (s', None, ops') \<Rightarrow>
           if Type ev = PUT
             then applyEventsLoop kv es nextRev (ops' @ [OpPut (Key kvp) (Value kvp)]) s'
           else if Type ev = DELETE
             then applyEventsLoop kv es nextRev (ops' @ [OpDelete (Key kvp)]) s'
           else (s', Failed UnexpectedEventType)))))"

definition applyEventsToEtcd :: "'s KVClient \<Rightarrow> Event list \<Rightarrow> 's \<Rightarrow> 's \<times> unit outcome" where
  "applyEventsToEtcd kv events s = applyEventsLoop kv events 0 [] s"

subsection \<open>verifySnapshotRevision and applyEventsAndVerify\<close>

definition verifySnapshotRevision :: "'s KVClient \<Rightarrow> Snapshot \<Rightarrow> 's \<Rightarrow> 's \<times> unit outcome" where
  "verifySnapshotRevision kv snap s =
     (case Get kv ''foo'' False s of
        (s', Inl err) \<Rightarrow> (s', Failed (Wrapped ''failed to connect to etcd KV client'' err))
      | (s', Inr etcdRevision) \<Rightarrow>
          if LastRevision snap \<noteq> etcdRevision
            then (s', Failed (RevisionMismatch (LastRevision snap) etcdRevision))
            else (s', Ok ()))"

definition applyEventsAndVerify ::
  "'s KVClient \<Rightarrow> Event list \<Rightarrow> Snapshot \<Rightarrow> 's \<Rightarrow> 's \<times> unit outcome" where
  "applyEventsAndVerify kv events snap s =
     (case applyEventsToEtcd kv events s of
        (s', Failed err) \<Rightarrow>
          (s', Failed (Wrapped (''failed to apply events to etcd for delta snapshot '' @ SnapName snap) err))
      | (s', Panic) \<Rightarrow> (s', Panic)
      | (s', Blocked) \<Rightarrow> (s', Blocked)
      | (s', Ok _) \<Rightarrow>
     (case verifySnapshotRevision kv snap s' of
        (s'', Failed err) \<Rightarrow>
          (s'', Failed (Wrapped (''snapshot revision verification failed for delta snapshot '' @ SnapName snap) err))
      | (s'', Panic) \<Rightarrow> (s'', Panic)
      | (s'', Blocked) \<Rightarrow> (s'', Blocked)
      | (s'', Ok _) \<Rightarrow> (s'', Ok ())))"

subsection \<open>The grouping of events into transactions, as the specification words it\<close>

text \<open>
  The modRevision and the operation of an event that \<^verbatim>\<open>applyEventsToEtcd\<close> accepts:
  both pointers set and the type \<^verbatim>\<open>PUT\<close> or \<^verbatim>\<open>DELETE\<close>.
\<close>

definition eventOp :: "Event \<Rightarrow> (int \<times> Op) option" where
  "eventOp e =
     (case EtcdEvent e of
        None \<Rightarrow> None
      | Some ev \<Rightarrow>
     (case Kv ev of
        None \<Rightarrow> None
      | Some kvp \<Rightarrow>
          if Type ev = PUT then Some (ModRevision kvp, OpPut (Key kvp) (Value kvp))
          else if Type ev = DELETE then Some (ModRevision kvp, OpDelete (Key kvp))
          else None))"

text \<open>
  The specification: accumulate operations into a pending batch; when the next event
  has a modRevision greater than the last seen one and the last seen one is not 0,
  commit the current batch and start a new one; commit the residual batch
  unconditionally. \<open>txnBatches lastSeen pending xs\<close> is the list of batches committed,
  for events given as pairs of modRevision and payload.
\<close>

fun txnBatches :: "int \<Rightarrow> (int \<times> 'a) list \<Rightarrow> (int \<times> 'a) list \<Rightarrow> (int \<times> 'a) list list" where
  "txnBatches lastSeen pending [] = [pending]"
| "txnBatches lastSeen pending (x # xs) =
     (if fst x > lastSeen \<and> lastSeen \<noteq> 0
        then pending # txnBatches (fst x) [x] xs
        else txnBatches (fst x) (pending @ [x]) xs)"

text \<open>Committing a list of batches, one transaction each, up to the first error.\<close>

fun commitAll :: "'s KVClient \<Rightarrow> Op list list \<Rightarrow> 's \<Rightarrow> 's \<times> unit outcome" where
  "commitAll kv [] s = (s, Ok ())"
| "commitAll kv (b # bs) s =
     (case Txn kv b s of
        (s', Some err) \<Rightarrow> (s', Failed err)
      | (s', None) \<Rightarrow> commitAll kv bs s')"

text \<open>The number of the batch that holds the \<open>i\<close>-th element of the concatenation.\<close>

fun txnOf :: "'a list list \<Rightarrow> nat \<Rightarrow> nat" where
  "txnOf [] i = 0"
| "txnOf (b # bs) i = (if i < length b then 0 else Suc (txnOf bs (i - length b)))"

text \<open>
  The number of commits the loop has made when it has taken up the \<open>i\<close>-th of the
  modRevisions \<open>rs\<close>, starting with \<open>l\<close> as the last seen one.
\<close>

fun commitsUpTo :: "int \<Rightarrow> int list \<Rightarrow> nat \<Rightarrow> nat" where
  "commitsUpTo l [] i = 0"
| "commitsUpTo l (r # rs) i =
     (if r > l \<and> l \<noteq> 0 then 1 else 0) + (case i of 0 \<Rightarrow> 0 | Suc j \<Rightarrow> commitsUpTo r rs j)"

subsection \<open>Reading and checking the contents of a delta snapshot\<close>

text \<open>
  An \<^verbatim>\<open>io.ReadCloser\<close>: the bytes it yields and the error that ends the stream (\<open>None\<close>
  for end of file). A nil reader is \<open>None\<close> of \<open>ReadCloser option\<close>.
\<close>

datatype ReadCloser = ReadCloser "byte list" "error option"

text \<open>
  The functions of other packages that the readers call: \<^verbatim>\<open>compressor.IsSnapshotCompressed\<close>
  and \<^verbatim>\<open>compressor.DecompressSnapshot\<close>, \<^verbatim>\<open>sha256\<close> (writing the data to a fresh hash and
  taking its sum; the write of a hash never fails) and \<^verbatim>\<open>json.Unmarshal\<close> into a list of
  events.
\<close>

record Codec =
  IsSnapshotCompressed :: "string \<Rightarrow> bool \<times> string \<times> error option"
  DecompressSnapshot :: "ReadCloser option \<Rightarrow> string \<Rightarrow> ReadCloser option \<times> error option"
  sha256Sum :: "byte list \<Rightarrow> byte list"
  jsonUnmarshal :: "byte list \<Rightarrow> error + Event list"

definition sha256Size :: int where "sha256Size = 32"

definition getNormalizedSnapshotReadCloser ::
  "Codec \<Rightarrow> ReadCloser option \<Rightarrow> Snapshot \<Rightarrow> ReadCloser option \<times> bool \<times> string \<times> error option" where
  "getNormalizedSnapshotReadCloser codec rc snap =
     (case IsSnapshotCompressed codec (CompressionSuffix snap) of
        (isCompressed, compressionPolicy, Some err) \<Rightarrow> (rc, False, [], Some err)
      | (isCompressed, compressionPolicy, None) \<Rightarrow>
          if isCompressed then
            (case DecompressSnapshot codec rc compressionPolicy of
               (rc', Some err) \<Rightarrow>
                 (rc', True, compressionPolicy, Some (Wrapped ''unable to decompress the snapshot'' err))
             | (rc', None) \<Rightarrow> (rc', isCompressed, compressionPolicy, None))
          else (rc, isCompressed, compressionPolicy, None))"

text \<open>
  \<^verbatim>\<open>readSnapshotContentsFromReadCloser\<close>. \<^verbatim>\<open>buf.ReadFrom(rc)\<close> panics on a nil reader;
  \<^verbatim>\<open>bufSize\<close> is the number of bytes read.
\<close>

definition readSnapshotContentsFromReadCloser ::
  "Codec \<Rightarrow> ReadCloser option \<Rightarrow> Snapshot \<Rightarrow> byte list outcome" where
  "readSnapshotContentsFromReadCloser codec rc snap =
     (case getNormalizedSnapshotReadCloser codec rc snap of
        (rc', wasCompressed, compressionPolicy, Some err) \<Rightarrow>
          Failed (Wrapped (''failed to decompress delta snapshot '' @ SnapName snap) err)
      | (None, wasCompressed, compressionPolicy, None) \<Rightarrow> Panic
      | (Some (ReadCloser bytes (Some err)), wasCompressed, compressionPolicy, None) \<Rightarrow>
          Failed (Wrapped (''failed to parse contents from delta snapshot '' @ SnapName snap) err)
      | (Some (ReadCloser bytes None), wasCompressed, compressionPolicy, None) \<Rightarrow>
          (let bufSize = int (length bytes) in
           if bufSize \<le> sha256Size then Failed MissingHash
           else
             (let sha = bytes;
                  data = take (nat (bufSize - sha256Size)) sha;
                  snapHash = drop (nat (bufSize - sha256Size)) sha;
                  computedSha = sha256Sum codec data
              in if snapHash \<noteq> computedSha then Failed (HashMismatch snapHash computedSha)
                 else Ok data)))"

subsection \<open>applyFirstDeltaSnapshot\<close>

text \<open>\<^verbatim>\<open>brtypes.SnapStore\<close>: \<^verbatim>\<open>Fetch\<close> returns a reader and an error.\<close>

record 's SnapStore =
  Fetch :: "Snapshot \<Rightarrow> 's \<Rightarrow> 's \<times> ReadCloser option \<times> error option"

text \<open>\<^verbatim>\<open>event.EtcdEvent.Kv.ModRevision\<close>; \<open>None\<close> when one of the pointers is nil.\<close>

definition eventRev :: "Event \<Rightarrow> int option" where
  "eventRev e =
     (case EtcdEvent e of
        None \<Rightarrow> None
      | Some ev \<Rightarrow> (case Kv ev of None \<Rightarrow> None | Some kvp \<Rightarrow> Some (ModRevision kvp)))"

text \<open>
  The scan for \<^verbatim>\<open>newRevisionIndex\<close>, over the events from position \<open>index\<close> on. The
  variable is declared without a value, so it is 0 when the loop ends without a
  \<^verbatim>\<open>break\<close>.
\<close>

fun findNewRevisionIndex :: "Event list \<Rightarrow> int \<Rightarrow> nat \<Rightarrow> nat outcome" where
  "findNewRevisionIndex [] lastRevision index = Ok 0"
| "findNewRevisionIndex (event # events) lastRevision index =
     (case eventRev event of
        None \<Rightarrow> Panic
      | Some modRevision \<Rightarrow>
          if modRevision > lastRevision then Ok index
          else findNewRevisionIndex events lastRevision (Suc index))"

definition applyFirstDeltaSnapshot ::
  "'s SnapStore \<Rightarrow> Codec \<Rightarrow> 's KVClient \<Rightarrow> Snapshot \<Rightarrow> 's \<Rightarrow> 's \<times> unit outcome" where
  "applyFirstDeltaSnapshot store codec kv snap s =
     (case Fetch store snap s of
        (s1, rc, Some err) \<Rightarrow>
          (s1, Failed (Wrapped (''failed to fetch delta snapshot from store '' @ SnapName snap) err))
      | (s1, rc, None) \<Rightarrow>
     (case readSnapshotContentsFromReadCloser codec rc snap of
        Failed err \<Rightarrow>
          (s1, Failed (Wrapped (''failed to read events data from delta snapshot '' @ SnapName snap) err))
      | Panic \<Rightarrow> (s1, Panic)
      | Blocked \<Rightarrow> (s1, Blocked)
      | Ok eventsData \<Rightarrow>
     (case jsonUnmarshal codec eventsData of
        Inl err \<Rightarrow>
          (s1, Failed (Wrapped (''failed to unmarshal events data from delta snapshot '' @ SnapName snap) err))
      | Inr events \<Rightarrow>
     (case Get kv [] True s1 of
        (s2, Inl err) \<Rightarrow> (s2, Failed (Wrapped ''failed to get etcd latest revision'' err))
      | (s2, Inr lastRevision) \<Rightarrow>
          if lastRevision = LastRevision snap then (s2, Ok ())
          else
            (case findNewRevisionIndex events lastRevision 0 of
               Ok newRevisionIndex \<Rightarrow> applyEventsToEtcd kv (drop newRevisionIndex events) s2
             | Failed err \<Rightarrow> (s2, Failed err)
             | Panic \<Rightarrow> (s2, Panic)
             | Blocked \<Rightarrow> (s2, Blocked))))))"

subsection \<open>Channels and the trace of a run\<close>

text \<open>\<^verbatim>\<open>brtypes.FetcherInfo\<close> and \<^verbatim>\<open>brtypes.ApplierInfo\<close>; the index is a Go \<^verbatim>\<open>int\<close>.\<close>

record FetcherInfo =
  Snapshot :: Snapshot
  FetcherSnapIndex :: int

record ApplierInfo =
  SnapFilePath :: string
  SnapIndex :: int

text \<open>
  The functions below run over a world and a trace. The world \<open>'s\<close> is what the
  collaborators act on. The trace is an instrument of the model: the functions append
  to it what they send on a channel, what they receive from the disarm channel, and
  the calls a claim speaks of (\<open>SnapApplied i\<close>: \<^verbatim>\<open>applyEventsAndVerify\<close> is called for
  \<^verbatim>\<open>remainingSnaps[i]\<close>; \<open>LeanCalled r\<close>: \<^verbatim>\<open>MakeEtcdLeanAndCheckAlarm\<close> is called with
  revision \<open>r\<close>; \<open>EmbeddedEtcdStarted\<close>: \<^verbatim>\<open>StartEmbeddedEtcd\<close> is called). A send on
  \<^verbatim>\<open>errCh\<close>, \<^verbatim>\<open>applierInfoCh\<close> or \<^verbatim>\<open>snapLocationsCh\<close> is taken to find room in the buffer.
\<close>

datatype action =
    ErrSent "error option"
  | ApplierInfoSent ApplierInfo
  | LocationSent string
  | AlarmSent string
  | DisarmReceived bool
  | SnapApplied nat
  | LeanCalled int
  | EmbeddedEtcdStarted

type_synonym 's run = "'s \<times> action list"

subsection \<open>MakeEtcdLeanAndCheckAlarm\<close>

text \<open>
  The answer of \<^verbatim>\<open>clientMaintenance.Status\<close> as far as it is read, and the calls made on
  \<^verbatim>\<open>client.MaintenanceCloser\<close>.
\<close>

record StatusResponse =
  DbSize :: int
  DbSizeInUse :: int

record 's MaintenanceClient =
  Status :: "string \<Rightarrow> 's \<Rightarrow> 's \<times> (error + StatusResponse)"
  Defragment :: "string \<Rightarrow> 's \<Rightarrow> 's \<times> error option"

text \<open>
  The two unbuffered channels between the lean-keeper and the alarm handler, from the
  lean-keeper's side: \<^verbatim>\<open>dbSizeAlarmCh <- endPoint\<close> and \<^verbatim>\<open><-dbSizeAlarmDisarmCh\<close>. The
  world holds the peer; \<open>None\<close> is an operation that never completes.
\<close>

record 's AlarmChannels =
  sendAlarm :: "string \<Rightarrow> 's \<Rightarrow> 's option"
  recvDisarm :: "'s \<Rightarrow> ('s \<times> bool) option"

text \<open>
  The arithmetic of \<^verbatim>\<open>float64\<close> is Go's own and is a parameter: the conversion of an
  \<^verbatim>\<open>int64\<close>, division, multiplication and the comparison \<^verbatim>\<open>>\<close>.
\<close>

record 'f Float64 =
  ofInt64 :: "int \<Rightarrow> 'f"
  fdiv :: "'f \<Rightarrow> 'f \<Rightarrow> 'f"
  fmul :: "'f \<Rightarrow> 'f \<Rightarrow> 'f"
  fgt :: "'f \<Rightarrow> 'f \<Rightarrow> bool"

definition periodicallyMakeEtcdLeanDeltaSnapshotInterval :: int where
  "periodicallyMakeEtcdLeanDeltaSnapshotInterval = 10"

definition thresholdPercentageForDBSizeAlarm :: "'f Float64 \<Rightarrow> 'f" where
  "thresholdPercentageForDBSizeAlarm fl = fdiv fl (ofInt64 fl 80) (ofInt64 fl 100)"

text \<open>
  The loop over the endpoints once the threshold is crossed. The status asked for after
  the disarm is only logged.
\<close>

fun raiseAlarms ::
  "'s AlarmChannels \<Rightarrow> 's MaintenanceClient \<Rightarrow> string list \<Rightarrow> 's run \<Rightarrow> 's run \<times> unit outcome" where
  "raiseAlarms ch mt [] (w, tr) = ((w, tr), Ok ())"
| "raiseAlarms ch mt (endPoint # rest) (w, tr) =
     (case sendAlarm ch endPoint w of
        None \<Rightarrow> ((w, tr), Blocked)
      | Some w1 \<Rightarrow>
     (case recvDisarm ch w1 of
        None \<Rightarrow> ((w1, tr @ [AlarmSent endPoint]), Blocked)
      | Some (w2, disarmed) \<Rightarrow>
          if \<not> disarmed
            then ((w2, tr @ [AlarmSent endPoint, DisarmReceived False]), Failed DisalarmFailed)
            else (case Status mt endPoint w2 of
                    (w3, afterDefragStatus) \<Rightarrow>
                      raiseAlarms ch mt rest (w3, tr @ [AlarmSent endPoint, DisarmReceived True]))))"

definition dbSizeCrossesThreshold :: "'f Float64 \<Rightarrow> StatusResponse \<Rightarrow> 'f \<Rightarrow> bool" where
  "dbSizeCrossesThreshold fl status embeddedEtcdQuotaBytes \<longleftrightarrow>
     fgt fl (ofInt64 fl (DbSizeInUse status))
       (fmul fl (thresholdPercentageForDBSizeAlarm fl) embeddedEtcdQuotaBytes) \<or>
     fgt fl (ofInt64 fl (DbSize status))
       (fmul fl (thresholdPercentageForDBSizeAlarm fl) embeddedEtcdQuotaBytes)"

definition MakeEtcdLeanAndCheckAlarm ::
  "'f Float64 \<Rightarrow> int \<Rightarrow> string list \<Rightarrow> 'f \<Rightarrow> 's AlarmChannels \<Rightarrow> 's KVClient \<Rightarrow>
   's MaintenanceClient \<Rightarrow> 's run \<Rightarrow> 's run \<times> unit outcome" where
  "MakeEtcdLeanAndCheckAlarm fl revision endPoints embeddedEtcdQuotaBytes ch kv mt run =
     (case run of (w, tr) \<Rightarrow>
     (case Compact kv revision w of
        (w1, Some err) \<Rightarrow> ((w1, tr), Failed (Wrapped ''compact API call failed'' err))
      | (w1, None) \<Rightarrow>
     (case endPoints of
        [] \<Rightarrow> ((w1, tr), Panic)
      | endPoint0 # others \<Rightarrow>
     (case Status mt endPoint0 w1 of
        (w2, Inl err) \<Rightarrow> ((w2, tr), Failed (Wrapped ''unable to check embedded etcd status'' err))
      | (w2, Inr status) \<Rightarrow>
          if dbSizeCrossesThreshold fl status embeddedEtcdQuotaBytes
            then raiseAlarms ch mt endPoints (w2, tr)
            else ((w2, tr), Ok ())))))"

text \<open>
  One round of \<^verbatim>\<open>HandleAlarm\<close>: the endpoint received is defragmented and the answer
  sent back is whether that succeeded.
\<close>

definition handleAlarm :: "'s MaintenanceClient \<Rightarrow> string \<Rightarrow> 's \<Rightarrow> 's \<times> bool" where
  "handleAlarm mt endPoint w =
     (case Defragment mt endPoint w of
        (w', Some err) \<Rightarrow> (w', False)
      | (w', None) \<Rightarrow> (w', True))"


subsection \<open>applySnaps\<close>

text \<open>
  The calls on the operating system: \<^verbatim>\<open>os.Open\<close>, \<^verbatim>\<open>os.Remove\<close>, \<^verbatim>\<open>os.Create\<close> (the file
  created is known by its path), \<^verbatim>\<open>tempFile.ReadFrom(rc)\<close>, \<^verbatim>\<open>rc.Close()\<close>,
  \<^verbatim>\<open>os.MkdirAll\<close>, \<^verbatim>\<open>os.RemoveAll\<close>, \<^verbatim>\<open>os.CreateTemp\<close> (which yields the name of the
  file), \<^verbatim>\<open>io.Copy\<close> into a file, and \<^verbatim>\<open>filepath.Join\<close> and \<^verbatim>\<open>path.Join\<close>.
\<close>

record 's OS =
  Open :: "string \<Rightarrow> 's \<Rightarrow> 's \<times> ReadCloser option \<times> error option"
  Remove :: "string \<Rightarrow> 's \<Rightarrow> 's \<times> error option"
  Create :: "string \<Rightarrow> 's \<Rightarrow> 's \<times> error option"
  ReadFrom :: "string \<Rightarrow> ReadCloser \<Rightarrow> 's \<Rightarrow> 's \<times> error option"
  CloseReader :: "ReadCloser \<Rightarrow> 's \<Rightarrow> 's \<times> error option"
  MkdirAll :: "string \<Rightarrow> 's \<Rightarrow> 's \<times> error option"
  RemoveAll :: "string \<Rightarrow> 's \<Rightarrow> 's \<times> error option"
  CreateTemp :: "string \<Rightarrow> string \<Rightarrow> 's \<Rightarrow> 's \<times> string \<times> error option"
  Copy :: "string \<Rightarrow> ReadCloser option \<Rightarrow> 's \<Rightarrow> 's \<times> error option"
  filepathJoin :: "string \<Rightarrow> string \<Rightarrow> string"
  pathJoin :: "string \<Rightarrow> string \<Rightarrow> string"

definition readSnapshotContentsFromFile ::
  "'s OS \<Rightarrow> Codec \<Rightarrow> string \<Rightarrow> Snapshot \<Rightarrow> 's \<Rightarrow> 's \<times> byte list outcome" where
  "readSnapshotContentsFromFile os codec filePath snap w =
     (case Open os filePath w of
        (w1, file, Some err) \<Rightarrow>
          (w1, Failed (Wrapped (''failed to open file '' @ filePath @ '' for delta snapshot '' @ SnapName snap) err))
      | (w1, file, None) \<Rightarrow> (w1, readSnapshotContentsFromReadCloser codec file snap))"

text \<open>What \<^verbatim>\<open>applySnaps\<close> is given, apart from the channels it receives from.\<close>

record ('s, 'f) ApplierDeps =
  depKV :: "'s KVClient"
  depMaintenance :: "'s MaintenanceClient"
  depChannels :: "'s AlarmChannels"
  depOS :: "'s OS"
  depCodec :: Codec
  depFloat :: "'f Float64"

text \<open>The local variables of \<^verbatim>\<open>applySnaps\<close>, with the world and the trace.\<close>

record 's applier =
  world :: 's
  trace :: "action list"
  pathList :: "string list"
  nextSnapIndexToApply :: int
  numberOfDeltaSnapApplied :: int
  prevAttemptToMakeEtcdLeanFailed :: bool

text \<open>
  How a piece of the loop ends: \<open>Next\<close> goes on (to the next iteration of the \<^verbatim>\<open>for\<close>
  over the snapshots, or back to the \<^verbatim>\<open>select\<close>), \<open>Break\<close> is the \<^verbatim>\<open>break\<close>, \<open>Return\<close> the
  \<^verbatim>\<open>return\<close> of the goroutine, \<open>Crash\<close> a panic, \<open>Stuck\<close> a wait inside a call that never
  ends, \<open>Waiting\<close> the \<^verbatim>\<open>select\<close> with nothing more to receive.
\<close>

datatype flow = Next | Break | Return | Crash | Stuck | Waiting

text \<open>
  The end of the loop body, after the events of \<^verbatim>\<open>remainingSnaps[currSnapIndex]\<close> were
  applied and verified and the file removed: from \<^verbatim>\<open>nextSnapIndexToApply++\<close> on. The
  counter is at least 1, where Go's \<^verbatim>\<open>%\<close> is \<open>mod\<close>.
\<close>

definition afterApply ::
  "('s, 'f) ApplierDeps \<Rightarrow> Snapshot list \<Rightarrow> string list \<Rightarrow> 'f \<Rightarrow> nat \<Rightarrow> 's applier \<Rightarrow> 's applier \<times> flow" where
  "afterApply d remainingSnaps endPoints quota currSnapIndex st =
     (let st1 = st\<lparr>nextSnapIndexToApply := nextSnapIndexToApply st + 1\<rparr> in
      if nextSnapIndexToApply st1 = int (length remainingSnaps)
        then (st1\<lparr>trace := trace st1 @ [ErrSent None]\<rparr>, Return)
      else
        (let st2 = st1\<lparr>numberOfDeltaSnapApplied := numberOfDeltaSnapApplied st1 + 1\<rparr> in
         if numberOfDeltaSnapApplied st2 mod periodicallyMakeEtcdLeanDeltaSnapshotInterval = 0 \<or>
            prevAttemptToMakeEtcdLeanFailed st2
         then
           (case MakeEtcdLeanAndCheckAlarm (depFloat d) (LastRevision (remainingSnaps ! currSnapIndex))
                   endPoints quota (depChannels d) (depKV d) (depMaintenance d)
                   (world st2, trace st2 @ [LeanCalled (LastRevision (remainingSnaps ! currSnapIndex))]) of
              ((w', tr'), Failed err) \<Rightarrow>
                (st2\<lparr>world := w', trace := tr', prevAttemptToMakeEtcdLeanFailed := True\<rparr>, Next)
            | ((w', tr'), Ok u) \<Rightarrow>
                (st2\<lparr>world := w', trace := tr', prevAttemptToMakeEtcdLeanFailed := False\<rparr>, Next)
            | ((w', tr'), Panic) \<Rightarrow> (st2\<lparr>world := w', trace := tr'\<rparr>, Crash)
            | ((w', tr'), Blocked) \<Rightarrow> (st2\<lparr>world := w', trace := tr'\<rparr>, Stuck))
         else (st2, Next)))"

text \<open>
  The body of the \<^verbatim>\<open>for\<close> over \<^verbatim>\<open>currSnapIndex\<close>. An index outside \<^verbatim>\<open>pathList\<close> or
  \<^verbatim>\<open>remainingSnaps\<close> panics. The snapshots of the list are taken to be non-nil.
\<close>

definition applyOne ::
  "('s, 'f) ApplierDeps \<Rightarrow> Snapshot list \<Rightarrow> string list \<Rightarrow> 'f \<Rightarrow> nat \<Rightarrow> 's applier \<Rightarrow> 's applier \<times> flow" where
  "applyOne d remainingSnaps endPoints quota currSnapIndex st =
     (if length (pathList st) \<le> currSnapIndex then (st, Crash)
      else if pathList st ! currSnapIndex = [] then (st, Break)
      else
        (let filePath = pathList st ! currSnapIndex;
             snap = remainingSnaps ! currSnapIndex
         in
         (case readSnapshotContentsFromFile (depOS d) (depCodec d) filePath snap (world st) of
            (w1, Failed err) \<Rightarrow>
              (st\<lparr>world := w1, trace := trace st @
                 [ErrSent (Some (Wrapped (''failed to read events data from delta snapshot file '' @ filePath) err))]\<rparr>,
               Return)
          | (w1, Panic) \<Rightarrow> (st\<lparr>world := w1\<rparr>, Crash)
          | (w1, Blocked) \<Rightarrow> (st\<lparr>world := w1\<rparr>, Stuck)
          | (w1, Ok eventsData) \<Rightarrow>
         (case jsonUnmarshal (depCodec d) eventsData of
            Inl err \<Rightarrow>
              (st\<lparr>world := w1, trace := trace st @
                 [ErrSent (Some (Wrapped (''failed to unmarshal events from events data for delta snapshot '' @ SnapName snap) err))]\<rparr>,
               Return)
          | Inr events \<Rightarrow>
         (case applyEventsAndVerify (depKV d) events snap w1 of
            (w2, Failed err) \<Rightarrow>
              (st\<lparr>world := w2, trace := trace st @ [SnapApplied currSnapIndex, ErrSent (Some err)]\<rparr>, Return)
          | (w2, Panic) \<Rightarrow> (st\<lparr>world := w2, trace := trace st @ [SnapApplied currSnapIndex]\<rparr>, Crash)
          | (w2, Blocked) \<Rightarrow> (st\<lparr>world := w2, trace := trace st @ [SnapApplied currSnapIndex]\<rparr>, Stuck)
          | (w2, Ok u) \<Rightarrow>
         (case Remove (depOS d) filePath w2 of
            (w3, removeErr) \<Rightarrow>
              afterApply d remainingSnaps endPoints quota currSnapIndex
                (st\<lparr>world := w3, trace := trace st @ [SnapApplied currSnapIndex]\<rparr>)))))))"

text \<open>The \<^verbatim>\<open>for\<close> over \<^verbatim>\<open>currSnapIndex\<close>, from \<^verbatim>\<open>fetchedSnapIndex\<close> on.\<close>

function applySnapsFrom ::
  "('s, 'f) ApplierDeps \<Rightarrow> Snapshot list \<Rightarrow> string list \<Rightarrow> 'f \<Rightarrow> nat \<Rightarrow> 's applier \<Rightarrow> 's applier \<times> flow" where
  "applySnapsFrom d remainingSnaps endPoints quota currSnapIndex st =
     (if currSnapIndex < length remainingSnaps then
        (case applyOne d remainingSnaps endPoints quota currSnapIndex st of
           (st', Next) \<Rightarrow> applySnapsFrom d remainingSnaps endPoints quota (Suc currSnapIndex) st'
         | (st', Break) \<Rightarrow> (st', Next)
         | (st', Return) \<Rightarrow> (st', Return)
         | (st', Crash) \<Rightarrow> (st', Crash)
         | (st', Stuck) \<Rightarrow> (st', Stuck)
         | (st', Waiting) \<Rightarrow> (st', Waiting))
      else (st, Next))"
  by pat_completeness auto
termination
  by (relation "measure (\<lambda>(d, remainingSnaps, endPoints, quota, currSnapIndex, st).
        length remainingSnaps - currSnapIndex)") auto

text \<open>
  What the \<^verbatim>\<open>select\<close> of \<^verbatim>\<open>applySnaps\<close> receives, in the order it receives it: from
  \<^verbatim>\<open>stopCh\<close> (with \<^verbatim>\<open>more\<close> false when the channel is closed) or from \<^verbatim>\<open>applierInfoCh\<close>.
  When nothing more arrives the goroutine waits.
\<close>

datatype applierInput = StopReceived bool | InfoReceived ApplierInfo

text \<open>One round of the \<^verbatim>\<open>select\<close>: what is done with the value received.\<close>

definition onApplierInput ::
  "('s, 'f) ApplierDeps \<Rightarrow> Snapshot list \<Rightarrow> string list \<Rightarrow> 'f \<Rightarrow> applierInput \<Rightarrow> 's applier \<Rightarrow>
   's applier \<times> flow" where
  "onApplierInput d remainingSnaps endPoints quota input st =
     (case input of
        StopReceived stillOpen \<Rightarrow> if \<not> stillOpen then (st, Return) else (st, Next)
      | InfoReceived applierInfo \<Rightarrow>
          if SnapIndex applierInfo = - 1 then (st, Return)
          else
            (let fetchedSnapIndex = SnapIndex applierInfo in
             if fetchedSnapIndex < 0 \<or> int (length (pathList st)) \<le> fetchedSnapIndex then (st, Crash)
             else
               (let st1 = st\<lparr>pathList := (pathList st)[nat fetchedSnapIndex := SnapFilePath applierInfo]\<rparr> in
                if fetchedSnapIndex < nextSnapIndexToApply st1
                  then (st1\<lparr>trace := trace st1 @
                          [ErrSent (Some (SnapIndexMismatch fetchedSnapIndex (nextSnapIndexToApply st1)))]\<rparr>,
                        Return)
                else if fetchedSnapIndex = nextSnapIndexToApply st1
                  then applySnapsFrom d remainingSnaps endPoints quota (nat fetchedSnapIndex) st1
                else (st1, Next))))"

text \<open>The endless \<^verbatim>\<open>for\<close> around the \<^verbatim>\<open>select\<close>, over what is received.\<close>

fun applySnapsLoop ::
  "('s, 'f) ApplierDeps \<Rightarrow> Snapshot list \<Rightarrow> string list \<Rightarrow> 'f \<Rightarrow> applierInput list \<Rightarrow> 's applier \<Rightarrow>
   's applier \<times> flow" where
  "applySnapsLoop d remainingSnaps endPoints quota [] st = (st, Waiting)"
| "applySnapsLoop d remainingSnaps endPoints quota (input # inputs) st =
     (case onApplierInput d remainingSnaps endPoints quota input st of
        (st', Next) \<Rightarrow> applySnapsLoop d remainingSnaps endPoints quota inputs st'
      | (st', Break) \<Rightarrow> applySnapsLoop d remainingSnaps endPoints quota inputs st'
      | (st', Return) \<Rightarrow> (st', Return)
      | (st', Crash) \<Rightarrow> (st', Crash)
      | (st', Stuck) \<Rightarrow> (st', Stuck)
      | (st', Waiting) \<Rightarrow> (st', Waiting))"

definition initApplier :: "Snapshot list \<Rightarrow> 's \<Rightarrow> 's applier" where
  "initApplier remainingSnaps w =
     \<lparr>world = w, trace = [], pathList = replicate (length remainingSnaps) [],
      nextSnapIndexToApply = 0, numberOfDeltaSnapApplied = 1,
      prevAttemptToMakeEtcdLeanFailed = False\<rparr>"

definition applySnaps ::
  "('s, 'f) ApplierDeps \<Rightarrow> Snapshot list \<Rightarrow> string list \<Rightarrow> 'f \<Rightarrow> applierInput list \<Rightarrow> 's \<Rightarrow>
   's applier \<times> flow" where
  "applySnaps d remainingSnaps endPoints quota inputs w =
     applySnapsLoop d remainingSnaps endPoints quota inputs (initApplier remainingSnaps w)"


text \<open>
  What holds of the applier at the head of the \<^verbatim>\<open>for\<close> over \<^verbatim>\<open>currSnapIndex\<close>, at the
  \<^verbatim>\<open>select\<close>, and when it has ended; \<open>alarmOnly\<close> are the actions of the lean-keeper.
\<close>

definition alarmOnly :: "action list \<Rightarrow> bool" where
  "alarmOnly ext \<longleftrightarrow>
     (\<forall>a\<in>set ext. case a of AlarmSent ep \<Rightarrow> True | DisarmReceived b \<Rightarrow> True | _ \<Rightarrow> False)"




subsection \<open>fetchSnaps\<close>

text \<open>
  \<^verbatim>\<open>persistRawDeltaSnapshot\<close>. The error of \<^verbatim>\<open>os.Create\<close> is replaced by one that names the
  path. \<^verbatim>\<open>tempFile.ReadFrom\<close> reads from the reader it is given, which panics when the
  reader is nil. The deferred close of the file ignores its error.
\<close>

definition persistRawDeltaSnapshot ::
  "'s OS \<Rightarrow> ReadCloser option \<Rightarrow> string \<Rightarrow> 's \<Rightarrow> 's \<times> unit outcome" where
  "persistRawDeltaSnapshot os rc tempFilePath w =
     (case Create os tempFilePath w of
        (w1, Some err) \<Rightarrow> (w1, Failed (CreateTempFileFailed tempFilePath))
      | (w1, None) \<Rightarrow>
     (case rc of
        None \<Rightarrow> (w1, Panic)
      | Some reader \<Rightarrow>
     (case ReadFrom os tempFilePath reader w1 of
        (w2, Some err) \<Rightarrow> (w2, Failed err)
      | (w2, None) \<Rightarrow>
     (case CloseReader os reader w2 of
        (w3, Some err) \<Rightarrow> (w3, Failed err)
      | (w3, None) \<Rightarrow> (w3, Ok ())))))"

text \<open>
  The \<^verbatim>\<open>default\<close> branch of the \<^verbatim>\<open>select\<close> in \<^verbatim>\<open>fetchSnaps\<close>, for one \<^verbatim>\<open>FetcherInfo\<close>. Neither
  \<^verbatim>\<open>if err != nil\<close> block ends with a \<^verbatim>\<open>return\<close>: after each the function goes on with
  the next statement.
\<close>

definition fetchOne :: "'s SnapStore \<Rightarrow> 's OS \<Rightarrow> string \<Rightarrow> FetcherInfo \<Rightarrow> 's run \<Rightarrow> 's run \<times> flow" where
  "fetchOne store os tempDir fetcherInfo run =
     (case run of (w, tr) \<Rightarrow>
     (case Fetch store (Snapshot fetcherInfo) w of
        (w1, rc, err) \<Rightarrow>
          (let tr1 = (case err of
                        Some e \<Rightarrow> tr @
                          [ErrSent (Some (Wrapped (''failed to fetch delta snapshot from store '' @
                             SnapName (Snapshot fetcherInfo)) e)),
                           ApplierInfoSent \<lparr>SnapFilePath = [], SnapIndex = - 1\<rparr>]
                      | None \<Rightarrow> tr);
               snapTempFilePath = filepathJoin os tempDir (SnapName (Snapshot fetcherInfo))
           in
           (case persistRawDeltaSnapshot os rc snapTempFilePath w1 of
              (w2, Panic) \<Rightarrow> ((w2, tr1), Crash)
            | (w2, Blocked) \<Rightarrow> ((w2, tr1), Stuck)
            | (w2, r) \<Rightarrow>
                (let tr2 = (case r of
                              Failed e \<Rightarrow> tr1 @
                                [ErrSent (Some (Wrapped (''failed to persist delta snapshot to temp file path '' @
                                   snapTempFilePath) e)),
                                 ApplierInfoSent \<lparr>SnapFilePath = [], SnapIndex = - 1\<rparr>]
                            | _ \<Rightarrow> tr1)
                 in ((w2, tr2 @
                       [LocationSent snapTempFilePath,
                        ApplierInfoSent \<lparr>SnapFilePath = snapTempFilePath,
                                         SnapIndex = FetcherSnapIndex fetcherInfo\<rparr>]),
                     Next))))))"

text \<open>
  The loop of \<^verbatim>\<open>fetchSnaps\<close> over what it receives from \<^verbatim>\<open>fetcherInfoCh\<close>, each with what
  the \<^verbatim>\<open>select\<close> then finds on \<^verbatim>\<open>stopCh\<close>: \<open>None\<close> for nothing (the \<^verbatim>\<open>default\<close> branch),
  \<open>Some more\<close> for a receive. The channel of infos is closed after the last one, which
  ends the loop.
\<close>

fun fetchSnapsLoop ::
  "'s SnapStore \<Rightarrow> 's OS \<Rightarrow> string \<Rightarrow> (FetcherInfo \<times> bool option) list \<Rightarrow> 's run \<Rightarrow> 's run \<times> flow" where
  "fetchSnapsLoop store os tempDir [] run = (run, Return)"
| "fetchSnapsLoop store os tempDir (received # rest) run =
     (case (case snd received of
              Some stillOpen \<Rightarrow> if \<not> stillOpen then (run, Return) else (run, Next)
            | None \<Rightarrow> fetchOne store os tempDir (fst received) run) of
        (run', Next) \<Rightarrow> fetchSnapsLoop store os tempDir rest run'
      | (run', Break) \<Rightarrow> fetchSnapsLoop store os tempDir rest run'
      | (run', Return) \<Rightarrow> (run', Return)
      | (run', Crash) \<Rightarrow> (run', Crash)
      | (run', Stuck) \<Rightarrow> (run', Stuck)
      | (run', Waiting) \<Rightarrow> (run', Waiting))"

definition fetchSnaps ::
  "'s SnapStore \<Rightarrow> 's OS \<Rightarrow> string \<Rightarrow> (FetcherInfo \<times> bool option) list \<Rightarrow> 's \<Rightarrow> 's run \<times> flow" where
  "fetchSnaps store os tempDir received w = fetchSnapsLoop store os tempDir received (w, [])"

subsection \<open>Restore\<close>

text \<open>
  \<^verbatim>\<open>brtypes.RestoreOptions\<close>, as far as the restorer reads it; the two pointers may be nil.
  \<^verbatim>\<open>snapshot.RestoreConfig\<close> is what etcd's restore of a snapshot is given.
\<close>

record RestoreOptions =
  Config :: "RestorationConfig option"
  BaseSnapshot :: "Snapshot option"
  DeltaSnapList :: "Snapshot list"
  PeerURLs :: "string list"

record RestoreConfig =
  SnapshotPath :: string
  RestoreName :: string
  RestorePeerURLs :: "string list"
  RestoreInitialCluster :: string
  RestoreInitialClusterToken :: string
  OutputDataDir :: string
  RestoreSkipHashCheck :: bool

text \<open>
  The collaborators of \<^verbatim>\<open>Restore\<close>: \<^verbatim>\<open>miscellaneous.StartEmbeddedEtcd\<close> (the etcd started is
  known by the address of its first client listener), the restore of etcd's snapshot
  manager, the client factory and the closing of a client, and
  \<^verbatim>\<open>member.Control.UpdateMemberPeerURL\<close>.
\<close>

record 's Host =
  StartEmbeddedEtcd :: "RestoreOptions \<Rightarrow> 's \<Rightarrow> 's \<times> string option \<times> error option"
  SnapshotRestore :: "RestoreConfig \<Rightarrow> 's \<Rightarrow> 's \<times> error option"
  NewClient :: "string \<Rightarrow> string list \<Rightarrow> 's \<Rightarrow> 's \<times> error option"
  CloseClient :: "string \<Rightarrow> 's \<Rightarrow> 's \<times> error option"
  UpdateMemberPeerURL :: "'s \<Rightarrow> 's \<times> error option"

text \<open>
  \<^verbatim>\<open>restoreFromBaseSnapshot\<close>, with its deferred calls (the removal of the temporary file,
  then the close of the reader) at every return after their \<^verbatim>\<open>defer\<close>. The close of a
  nil reader panics.
\<close>

definition restoreFromBaseSnapshot ::
  "'s SnapStore \<Rightarrow> 's OS \<Rightarrow> Codec \<Rightarrow> 's Host \<Rightarrow> RestoreOptions \<Rightarrow> 's \<Rightarrow> 's \<times> unit outcome" where
  "restoreFromBaseSnapshot store os codec host ro w =
     (case (BaseSnapshot ro, Config ro) of
        (None, cfg) \<Rightarrow> (w, Panic)
      | (Some base, cfg) \<Rightarrow>
          if pathJoin os (SnapDir base) (SnapName base) = [] then (w, Ok ())
          else
     (case Fetch store base w of
        (w1, rc, Some err) \<Rightarrow>
          (w1, Failed (Wrapped ''failed to fetch the base snapshot from the object store with error'' err))
      | (w1, rc, None) \<Rightarrow>
     (case (case IsSnapshotCompressed codec (CompressionSuffix base) of
              (isCompressed, policy, Some err) \<Rightarrow>
                (w1, rc, Failed (Wrapped ''failed to determine snapshot compression policy'' err))
            | (isCompressed, policy, None) \<Rightarrow>
           (case (if isCompressed then DecompressSnapshot codec rc policy else (rc, None)) of
              (rc', Some err) \<Rightarrow> (w1, rc', Failed (Wrapped ''unable to decompress the snapshot'' err))
            | (rc', None) \<Rightarrow>
           (case cfg of
              None \<Rightarrow> (w1, rc', Panic)
            | Some c \<Rightarrow>
           (case CreateTemp os (TempSnapshotsDir c) ''snapshot-*.db'' w1 of
              (w2, db, Some err) \<Rightarrow>
                (w2, rc', Failed (Wrapped ''failed to create a temporary file for snapshot'' err))
            | (w2, db, None) \<Rightarrow>
           (case (case Copy os db rc' w2 of
                    (w3, Some err) \<Rightarrow>
                      (w3, Failed (Wrapped ''failed to copy snapshot data into the temporary file on disk needed for restoration with error'' err))
                  | (w3, None) \<Rightarrow>
                 (case SnapshotRestore host
                         \<lparr>SnapshotPath = db, RestoreName = Name c, RestorePeerURLs = PeerURLs ro,
                          RestoreInitialCluster = InitialCluster c,
                          RestoreInitialClusterToken = InitialClusterToken c,
                          OutputDataDir = DataDir c, RestoreSkipHashCheck = SkipHashCheck c\<rparr> w3 of
                    (w4, Some err) \<Rightarrow>
                      (w4, Failed (Wrapped ''failed to restore the etcd database from the base snapshot with error'' err))
                  | (w4, None) \<Rightarrow> (w4, Ok ()))) of
              (w5, r) \<Rightarrow> (case Remove os db w5 of (w6, removeErr) \<Rightarrow> (w6, rc', r))))))) of
        (w7, rcFinal, r) \<Rightarrow>
          (case rcFinal of
             None \<Rightarrow> (w7, Panic)
           | Some reader \<Rightarrow> (case CloseReader os reader w7 of (w8, closeErr) \<Rightarrow> (w8, r))))))"

text \<open>
  \<^verbatim>\<open>applyDeltaSnapshots\<close> up to the start of the goroutines. The applier, the fetchers and
  the alarm handler then run concurrently, each as modelled above; how they interleave,
  up to the value received from \<^verbatim>\<open>errCh\<close> and the cleanup, is the parameter \<open>pipeline\<close>.
  The deferred closes of the clients follow every return after their \<^verbatim>\<open>defer\<close>.
\<close>

definition applyDeltaSnapshots ::
  "('s, 'f) ApplierDeps \<Rightarrow> 's SnapStore \<Rightarrow> 's Host \<Rightarrow>
   (RestoreOptions \<Rightarrow> Snapshot list \<Rightarrow> string list \<Rightarrow> 'f \<Rightarrow> 's run \<Rightarrow> 's run \<times> unit outcome) \<Rightarrow>
   string list \<Rightarrow> RestoreOptions \<Rightarrow> 's run \<Rightarrow> 's run \<times> unit outcome" where
  "applyDeltaSnapshots d store host pipeline endPoints ro run =
     (case run of (w, tr) \<Rightarrow>
     (case NewClient host ''KV'' endPoints w of
        (w1, Some err) \<Rightarrow> ((w1, tr), Failed err)
      | (w1, None) \<Rightarrow>
     (case (case NewClient host ''Maintenance'' endPoints w1 of
              (w2, Some err) \<Rightarrow> ((w2, tr), Failed err)
            | (w2, None) \<Rightarrow>
           (case (case (DeltaSnapList ro, Config ro) of
                    ([], cfg) \<Rightarrow> ((w2, tr), Panic)
                  | (firstDeltaSnap # remainingSnaps, None) \<Rightarrow> ((w2, tr), Panic)
                  | (firstDeltaSnap # remainingSnaps, Some c) \<Rightarrow>
                 (case applyFirstDeltaSnapshot store (depCodec d) (depKV d) firstDeltaSnap w2 of
                    (w3, Failed err) \<Rightarrow> ((w3, tr), Failed err)
                  | (w3, Panic) \<Rightarrow> ((w3, tr), Panic)
                  | (w3, Blocked) \<Rightarrow> ((w3, tr), Blocked)
                  | (w3, Ok u) \<Rightarrow>
                 (case verifySnapshotRevision (depKV d) firstDeltaSnap w3 of
                    (w4, Failed err) \<Rightarrow> ((w4, tr), Failed err)
                  | (w4, Panic) \<Rightarrow> ((w4, tr), Panic)
                  | (w4, Blocked) \<Rightarrow> ((w4, tr), Blocked)
                  | (w4, Ok u) \<Rightarrow>
                      if remainingSnaps = [] then ((w4, tr), Ok ())
                      else pipeline ro remainingSnaps endPoints
                             (ofInt64 (depFloat d) (sint (EmbeddedEtcdQuotaBytes c))) (w4, tr)))) of
              ((w5, tr5), r) \<Rightarrow>
                (case CloseClient host ''Maintenance'' w5 of (w6, closeErr) \<Rightarrow> ((w6, tr5), r)))) of
        ((w7, tr7), r) \<Rightarrow> (case CloseClient host ''KV'' w7 of (w8, closeErr) \<Rightarrow> ((w8, tr7), r)))))"

text \<open>
  \<^verbatim>\<open>Restore\<close>: the result is the etcd returned (\<open>None\<close> for nil) and the error. The member
  control \<open>m\<close> is nil or not. The removal of the temporary directory is deferred after
  \<^verbatim>\<open>MkdirAll\<close> and so follows every later return.
\<close>

definition RestoreBody ::
  "('s, 'f) ApplierDeps \<Rightarrow> 's SnapStore \<Rightarrow> 's Host \<Rightarrow>
   (RestoreOptions \<Rightarrow> Snapshot list \<Rightarrow> string list \<Rightarrow> 'f \<Rightarrow> 's run \<Rightarrow> 's run \<times> unit outcome) \<Rightarrow>
   RestoreOptions \<Rightarrow> bool \<Rightarrow> 's run \<Rightarrow> 's run \<times> (string option \<times> error option) outcome" where
  "RestoreBody d store host pipeline ro m run =
     (case run of (w, tr) \<Rightarrow>
     (case restoreFromBaseSnapshot store (depOS d) (depCodec d) host ro w of
        (w1, Failed err) \<Rightarrow>
          ((w1, tr), Ok (None, Some (Wrapped ''failed to restore from the base snapshot'' err)))
      | (w1, Panic) \<Rightarrow> ((w1, tr), Panic)
      | (w1, Blocked) \<Rightarrow> ((w1, tr), Blocked)
      | (w1, Ok u) \<Rightarrow>
          if length (DeltaSnapList ro) = 0 then ((w1, tr), Ok (None, None))
          else
     (case StartEmbeddedEtcd host ro w1 of
        (w2, e, Some err) \<Rightarrow> ((w2, tr @ [EmbeddedEtcdStarted]), Ok (e, Some err))
      | (w2, None, None) \<Rightarrow> ((w2, tr @ [EmbeddedEtcdStarted]), Panic)
      | (w2, Some address, None) \<Rightarrow>
     (case applyDeltaSnapshots d store host pipeline [address] ro (w2, tr @ [EmbeddedEtcdStarted]) of
        (run3, Failed err) \<Rightarrow> (run3, Ok (Some address, Some err))
      | (run3, Panic) \<Rightarrow> (run3, Panic)
      | (run3, Blocked) \<Rightarrow> (run3, Blocked)
      | ((w3, tr3), Ok u) \<Rightarrow>
          if m then
            (case NewClient host ''Cluster'' [address] w3 of
               (w4, Some err) \<Rightarrow> ((w4, tr3), Ok (Some address, Some err))
             | (w4, None) \<Rightarrow>
            (case UpdateMemberPeerURL host w4 of
               (w5, updateErr) \<Rightarrow>
                 (case CloseClient host ''Cluster'' w5 of
                    (w6, closeErr) \<Rightarrow> ((w6, tr3), Ok (Some address, updateErr)))))
          else ((w3, tr3), Ok (Some address, None))))))"

definition Restore ::
  "('s, 'f) ApplierDeps \<Rightarrow> 's SnapStore \<Rightarrow> 's Host \<Rightarrow>
   (RestoreOptions \<Rightarrow> Snapshot list \<Rightarrow> string list \<Rightarrow> 'f \<Rightarrow> 's run \<Rightarrow> 's run \<times> unit outcome) \<Rightarrow>
   RestoreOptions \<Rightarrow> bool \<Rightarrow> 's run \<Rightarrow> 's run \<times> (string option \<times> error option) outcome" where
  "Restore d store host pipeline ro m run =
     (case run of (w, tr) \<Rightarrow>
     (case Config ro of
        None \<Rightarrow> ((w, tr), Panic)
      | Some c \<Rightarrow>
     (case MkdirAll (depOS d) (TempSnapshotsDir c) w of
        (w1, Some err) \<Rightarrow> ((w1, tr), Ok (None, Some err))
      | (w1, None) \<Rightarrow>
     (case RestoreBody d store host pipeline ro m (w1, tr) of
        ((w2, tr2), r) \<Rightarrow>
          (case RemoveAll (depOS d) (TempSnapshotsDir c) w2 of
             (w3, removeErr) \<Rightarrow> ((w3, tr2), r))))))"

subsection \<open>Doubles of the collaborators, for concrete runs\<close>

text \<open>
  A world for concrete runs: an etcd that is its revision, the log of the transactions
  committed and a database size; the files on disk; the endpoints waiting on the alarm
  channel and the endpoints defragmented.
\<close>

record SimWorld =
  etcdRevision :: int
  etcdLog :: "Op list list"
  etcdDbSize :: int
  simFiles :: "(string \<times> byte list) list"
  simAlarmCh :: "string list"
  simDefragmented :: "string list"

definition simWorld :: "int \<Rightarrow> (string \<times> byte list) list \<Rightarrow> SimWorld" where
  "simWorld r fs = \<lparr>etcdRevision = r, etcdLog = [], etcdDbSize = 0, simFiles = fs,
     simAlarmCh = [], simDefragmented = []\<rparr>"

text \<open>
  A transaction always commits and advances the revision by one; a \<^verbatim>\<open>Get\<close> reports the
  revision; compaction succeeds.
\<close>

definition simKV :: "SimWorld KVClient" where
  "simKV = \<lparr>Txn = (\<lambda>ops w. (w\<lparr>etcdRevision := etcdRevision w + 1, etcdLog := etcdLog w @ [ops]\<rparr>, None)),
             Get = (\<lambda>key lastRev w. (w, Inr (etcdRevision w))),
             Compact = (\<lambda>r w. (w, None))\<rparr>"

definition simMaintenance :: "SimWorld MaintenanceClient" where
  "simMaintenance =
     \<lparr>Status = (\<lambda>ep w. (w, Inr \<lparr>DbSize = etcdDbSize w, DbSizeInUse = etcdDbSize w\<rparr>)),
      Defragment = (\<lambda>ep w. (w\<lparr>simDefragmented := simDefragmented w @ [ep]\<rparr>, None))\<rparr>"

text \<open>The peer on the alarm channels is the alarm handler over \<open>simMaintenance\<close>.\<close>

definition simChannels :: "SimWorld AlarmChannels" where
  "simChannels =
     \<lparr>sendAlarm = (\<lambda>ep w. Some (w\<lparr>simAlarmCh := simAlarmCh w @ [ep]\<rparr>)),
      recvDisarm = (\<lambda>w. case simAlarmCh w of
                           [] \<Rightarrow> None
                         | ep # rest \<Rightarrow> Some (handleAlarm simMaintenance ep (w\<lparr>simAlarmCh := rest\<rparr>)))\<rparr>"

text \<open>A disk on which every operation succeeds, but the opening of a file that is not there.\<close>

definition simOS :: "SimWorld OS" where
  "simOS =
     \<lparr>Open = (\<lambda>path w. case map_of (simFiles w) path of
                          None \<Rightarrow> (w, None, Some (External ''no such file''))
                        | Some bytes \<Rightarrow> (w, Some (ReadCloser bytes None), None)),
      Remove = (\<lambda>path w. (w\<lparr>simFiles := filter (\<lambda>f. fst f \<noteq> path) (simFiles w)\<rparr>, None)),
      Create = (\<lambda>path w. (w\<lparr>simFiles := (path, []) # simFiles w\<rparr>, None)),
      ReadFrom = (\<lambda>path rc w. case rc of ReadCloser bytes err \<Rightarrow>
                    (w\<lparr>simFiles := (path, bytes) # simFiles w\<rparr>, err)),
      CloseReader = (\<lambda>rc w. (w, None)),
      MkdirAll = (\<lambda>path w. (w, None)),
      RemoveAll = (\<lambda>path w. (w, None)),
      CreateTemp = (\<lambda>dir pattern w. (w, dir @ ''/snapshot-1.db'', None)),
      Copy = (\<lambda>path rc w. (w, None)),
      filepathJoin = (\<lambda>a b. a @ ''/'' @ b),
      pathJoin = (\<lambda>a b. a @ ''/'' @ b)\<rparr>"

definition putAt :: "string \<Rightarrow> int \<Rightarrow> Event" where
  "putAt k r = \<lparr>EtcdEvent = Some \<lparr>Type = PUT,
     Kv = Some \<lparr>Key = k, Value = ''v'', ModRevision = r\<rparr>\<rparr>, Time = 0\<rparr>"

definition deleteAt :: "string \<Rightarrow> int \<Rightarrow> Event" where
  "deleteAt k r = \<lparr>EtcdEvent = Some \<lparr>Type = DELETE,
     Kv = Some \<lparr>Key = k, Value = [], ModRevision = r\<rparr>\<rparr>, Time = 0\<rparr>"

text \<open>
  A codec without compression whose hash of any data is 32 zero bytes and whose JSON
  decoder reads every byte \<open>b\<close> of the data as a put of the key \<open>k\<close> at modRevision \<open>b\<close>;
  and a store that hands out the given bytes.
\<close>

definition simCodec :: Codec where
  "simCodec = \<lparr>IsSnapshotCompressed = (\<lambda>suffix. (False, [], None)),
     DecompressSnapshot = (\<lambda>rc policy. (rc, None)),
     sha256Sum = (\<lambda>data. replicate 32 0),
     jsonUnmarshal = (\<lambda>data. Inr (map (\<lambda>b. putAt ''k'' (uint b)) data))\<rparr>"

definition simStore :: "byte list \<Rightarrow> 's SnapStore" where
  "simStore bytes = \<lparr>Fetch = (\<lambda>snap s. (s, Some (ReadCloser bytes None), None))\<rparr>"

definition simSnap :: "string \<Rightarrow> int \<Rightarrow> Snapshot" where
  "simSnap name lastRev = \<lparr>Kind = ''Incr'', SnapDir = ''Backup-1'', SnapName = name,
     StartRevision = 0, LastRevision = lastRev, CompressionSuffix = []\<rparr>"

text \<open>Exact rational arithmetic in the place of \<^verbatim>\<open>float64\<close>.\<close>

definition simFloat :: "rat Float64" where
  "simFloat = \<lparr>ofInt64 = of_int, fdiv = (\<lambda>a b. a / b), fmul = (\<lambda>a b. a * b), fgt = (\<lambda>a b. a > b)\<rparr>"

definition simDeps :: "(SimWorld, rat) ApplierDeps" where
  "simDeps = \<lparr>depKV = simKV, depMaintenance = simMaintenance, depChannels = simChannels,
     depOS = simOS, depCodec = simCodec, depFloat = simFloat\<rparr>"

text \<open>
  Runs of the applier: \<open>n\<close> remaining deltas, the \<open>i\<close>-th with one put at revision
  \<open>6 + i\<close>, each persisted under its own path, announced in the order of their indices.
\<close>

definition simSnaps :: "nat \<Rightarrow> Snapshot list" where
  "simSnaps n = map (\<lambda>i. simSnap ''delta'' (6 + int i)) [0..<n]"

definition simPath :: "nat \<Rightarrow> string" where
  "simPath i = ''tmp/delta-'' @ [''0123456789'' ! i]"

definition simDisk :: "nat \<Rightarrow> (string \<times> byte list) list" where
  "simDisk n = map (\<lambda>i. (simPath i, of_nat (6 + i) # replicate 32 0)) [0..<n]"

definition simInfo :: "nat \<Rightarrow> applierInput" where
  "simInfo i = InfoReceived \<lparr>SnapFilePath = simPath i, SnapIndex = int i\<rparr>"

text \<open>
  The applier of such a run at the \<^verbatim>\<open>select\<close>, after the first \<open>i\<close> of \<open>n\<close> deltas were
  applied without a call of the lean-keeper.
\<close>

definition simApplierState :: "nat \<Rightarrow> nat \<Rightarrow> SimWorld applier" where
  "simApplierState n i =
     \<lparr>world = \<lparr>etcdRevision = 5 + int i, etcdLog = replicate i [OpPut ''k'' ''v''], etcdDbSize = 0,
               simFiles = drop i (simDisk n), simAlarmCh = [], simDefragmented = []\<rparr>,
      trace = map SnapApplied [0..<i], pathList = map simPath [0..<i] @ replicate (n - i) [],
      nextSnapIndexToApply = int i, numberOfDeltaSnapApplied = 1 + int i,
      prevAttemptToMakeEtcdLeanFailed = False\<rparr>"

text \<open>An etcd whose compaction fails.\<close>

definition simKVNoCompact :: "SimWorld KVClient" where
  "simKVNoCompact = simKV\<lparr>Compact := (\<lambda>r w. (w, Some (External ''compaction failed'')))\<rparr>"

text \<open>
  A host on which every call succeeds, restore options without deltas, a disk on which
  no file can be created, and a store whose fetch fails and yields no reader.
\<close>

definition simHost :: "SimWorld Host" where
  "simHost = \<lparr>StartEmbeddedEtcd = (\<lambda>ro w. (w, Some ''127.0.0.1:2379'', None)),
     SnapshotRestore = (\<lambda>cfg w. (w, None)),
     NewClient = (\<lambda>kind endPoints w. (w, None)),
     CloseClient = (\<lambda>kind w. (w, None)),
     UpdateMemberPeerURL = (\<lambda>w. (w, None))\<rparr>"

definition simRestoreOptions :: "Snapshot list \<Rightarrow> RestoreOptions" where
  "simRestoreOptions deltas = \<lparr>Config = Some demoConfig, BaseSnapshot = Some (simSnap ''full'' 5),
     DeltaSnapList = deltas, PeerURLs = [''http://localhost:2380'']\<rparr>"

definition simReadOnlyOS :: "SimWorld OS" where
  "simReadOnlyOS = simOS\<lparr>Create := (\<lambda>path w. (w, Some (External ''permission denied'')))\<rparr>"

definition simBrokenStore :: "'s SnapStore" where
  "simBrokenStore = \<lparr>Fetch = (\<lambda>snap s. (s, None, Some (External ''connection refused'')))\<rparr>"

section \<open>Theorems\<close>

subsection \<open>Validate\<close>

text \<open>
  C10. When \<^verbatim>\<open>RestorationConfig.Validate\<close> returns nil it has replaced \<open>DataDir\<close> and
  \<open>TempSnapshotsDir\<close> with their \<^verbatim>\<open>path.Clean\<close> normalizations and left every other
  field unchanged; when it returns an error, no field is modified.
\<close>

theorem Validate_frame:
  "(Validate lib c = (None, c') \<longrightarrow>
      c' = c\<lparr>DataDir := pathClean lib (DataDir c),
             TempSnapshotsDir := pathClean lib (TempSnapshotsDir c)\<rparr>) \<and>
   (Validate lib c = (Some e, c') \<longrightarrow> c' = c)"
  by (auto simp: Validate_def split: option.splits if_splits)

theorem Validate_frame_witness:
  "Validate demoLib demoConfig = (None, demoConfig\<lparr>DataDir := ''default.etcd''\<rparr>) \<and>
   demoConfig\<lparr>DataDir := ''default.etcd''\<rparr> =
     demoConfig\<lparr>DataDir := pathClean demoLib (DataDir demoConfig),
       TempSnapshotsDir := pathClean demoLib (TempSnapshotsDir demoConfig)\<rparr> \<and>
   Validate demoLib (demoConfig\<lparr>MaxFetchers := 0\<rparr>) =
     (Some MaxFetchersNotPositive, demoConfig\<lparr>MaxFetchers := 0\<rparr>)"
  using Validate_frame [of demoLib demoConfig "demoConfig\<lparr>DataDir := ''default.etcd''\<rparr>"]
    Validate_frame [of demoLib "demoConfig\<lparr>MaxFetchers := 0\<rparr>"
      "demoConfig\<lparr>MaxFetchers := 0\<rparr>" MaxFetchersNotPositive]
  by (simp add: Validate_def demoLib_def demoConfig_def)

subsection \<open>applyEventsToEtcd: the transactions committed\<close>

lemma applyEventsLoop_batches:
  "map eventOp evs = map Some xs \<Longrightarrow>
   applyEventsLoop kv evs lastRev (map snd pending) s =
     commitAll kv (map (map snd) (txnBatches lastRev pending xs)) s"
proof (induction evs arbitrary: xs lastRev pending s)
  case Nil
  then show ?case by (simp split: prod.splits option.splits)
next
  case (Cons e es)
  then obtain x xs' where xs: "xs = x # xs'" and ex: "eventOp e = Some x"
    and rest: "map eventOp es = map Some xs'" by (cases xs) auto
  from ex obtain ev kvp where ev: "EtcdEvent e = Some ev" and kvp: "Kv ev = Some kvp"
    and ty: "Type ev = PUT \<or> Type ev = DELETE" and fx: "fst x = ModRevision kvp"
    by (auto simp: eventOp_def split: option.splits if_splits)
  from ex ev kvp have sx: "snd x = (if Type ev = PUT then OpPut (Key kvp) (Value kvp) else OpDelete (Key kvp))"
    by (auto simp: eventOp_def split: option.splits if_splits)
  show ?case
  proof (cases "lastRev \<noteq> 0 \<and> ModRevision kvp > lastRev")
    case True
    show ?thesis
    proof (cases "Txn kv (map snd pending) s")
      case (Pair s' r)
      show ?thesis
      proof (cases r)
        case None
        have "applyEventsLoop kv (e # es) lastRev (map snd pending) s
              = applyEventsLoop kv es (fst x) (map snd [x]) s'"
          using True Pair None ev kvp ty fx sx by (auto simp: PUT_def DELETE_def)
        also have "\<dots> = commitAll kv (map (map snd) (txnBatches (fst x) [x] xs')) s'"
          using Cons.IH[OF rest] by blast
        finally show ?thesis using True Pair None xs fx by simp
      next
        case (Some err)
        then show ?thesis using True Pair xs fx ev kvp by simp
      qed
    qed
  next
    case False
    have "applyEventsLoop kv (e # es) lastRev (map snd pending) s
          = applyEventsLoop kv es (fst x) (map snd (pending @ [x])) s"
      using False ev kvp ty fx sx by (auto simp: PUT_def DELETE_def)
    also have "\<dots> = commitAll kv (map (map snd) (txnBatches (fst x) (pending @ [x]) xs')) s"
      using Cons.IH[OF rest] by blast
    finally show ?thesis using False xs fx by auto
  qed
qed

lemma concat_txnBatches: "concat (txnBatches l p xs) = p @ xs"
  by (induction xs arbitrary: l p) auto

lemma txnBatches_hd: "\<exists>q rest. txnBatches l p xs = (p @ q) # rest"
proof (induction xs arbitrary: l p)
  case Nil show ?case by simp
next
  case (Cons x xs)
  show ?case
  proof (cases "fst x > l \<and> l \<noteq> 0")
    case True then show ?thesis by simp
  next
    case False
    from Cons[of "fst x" "p @ [x]"] obtain q rest where "txnBatches (fst x) (p @ [x]) xs = ((p @ [x]) @ q) # rest" by blast
    then show ?thesis using False by auto
  qed
qed

lemma txnOf_pending: "i < length p \<Longrightarrow> txnOf (txnBatches l p xs) i = 0"
  using txnBatches_hd[of l p xs] by auto


lemma txnOf_txnBatches:
  "i < length xs \<Longrightarrow> txnOf (txnBatches l p xs) (length p + i) = commitsUpTo l (map fst xs) i"
proof (induction xs arbitrary: l p i)
  case Nil then show ?case by simp
next
  case (Cons x xs)
  show ?case
  proof (cases i)
    case 0
    then show ?thesis using txnOf_pending[of 0 "[x]" "fst x" xs] txnOf_pending[of "length p" "p @ [x]" "fst x" xs] by auto
  next
    case (Suc j)
    with Cons.prems have j: "j < length xs" by simp
    show ?thesis using Suc Cons.IH[OF j, of "fst x" "[x]"] Cons.IH[OF j, of "fst x" "p @ [x]"] by auto
  qed
qed

lemma commitsUpTo_Suc:
  "Suc i < length rs \<Longrightarrow> commitsUpTo l rs (Suc i) = commitsUpTo l rs i + (if rs ! Suc i > rs ! i \<and> rs ! i \<noteq> 0 then 1 else 0)"
proof (induction rs arbitrary: l i)
  case Nil then show ?case by simp
next
  case (Cons r rs)
  show ?case
  proof (cases i)
    case 0
    then show ?thesis using Cons.prems by (cases rs) auto
  next
    case (Suc j)
    then show ?thesis using Cons.prems Cons.IH[of j r] by auto
  qed
qed

lemma commitsUpTo_equal:
  "sorted rs \<Longrightarrow> i \<le> j \<Longrightarrow> j < length rs \<Longrightarrow> rs ! i = rs ! j \<Longrightarrow> commitsUpTo l rs j = commitsUpTo l rs i"
proof (induction "j - i" arbitrary: j)
  case 0 then show ?case by simp
next
  case (Suc d)
  then obtain k where k: "j = Suc k" "i \<le> k" by (cases j) auto
  have kl: "Suc k < length rs" using Suc.prems k by simp
  have "rs ! i \<le> rs ! k"
    using sorted_nth_mono[OF \<open>sorted rs\<close> \<open>i \<le> k\<close>] kl by simp
  moreover have "rs ! k \<le> rs ! Suc k"
    using sorted_nth_mono[OF \<open>sorted rs\<close>, of k "Suc k"] kl by simp
  moreover have "rs ! i = rs ! Suc k" using Suc.prems(4) k(1) by simp
  ultimately have e1: "rs ! i = rs ! k" and e2: "\<not> rs ! k < rs ! Suc k"
    by linarith+
  have d: "d = k - i" using Suc.hyps(2) k by linarith
  have "commitsUpTo l rs k = commitsUpTo l rs i"
    using Suc.hyps(1)[OF d \<open>sorted rs\<close> \<open>i \<le> k\<close> _ e1] kl by simp
  moreover have "commitsUpTo l rs (Suc k) = commitsUpTo l rs k"
    using commitsUpTo_Suc[OF kl, of l] e2 by simp
  ultimately show ?case using k(1) by simp
qed

text \<open>
  C1 (as amended). \<^verbatim>\<open>applyEventsToEtcd\<close> applies the events of a delta in list order,
  grouping them into transactions as the specification words it: for every list of
  events with both pointers set and type \<^verbatim>\<open>PUT\<close> or \<^verbatim>\<open>DELETE\<close>, it commits the batches of
  \<open>txnBatches\<close> one after the other, and their concatenation is the list of events.
  For every event list whose modRevisions are non-decreasing, events of equal
  modRevision commit in the same transaction; and an event whose modRevision is
  strictly greater than that of the event before it commits in the next transaction,
  provided the modRevision of the event before it is not 0.
\<close>

theorem applyEventsToEtcd_transactions:
  assumes "map eventOp evs = map Some xs"
  shows "applyEventsToEtcd kv evs s = commitAll kv (map (map snd) (txnBatches 0 [] xs)) s \<and>
         concat (txnBatches 0 [] xs) = xs \<and>
         (\<forall>i j. sorted (map fst xs) \<longrightarrow> i \<le> j \<longrightarrow> j < length xs \<longrightarrow> fst (xs ! i) = fst (xs ! j) \<longrightarrow>
            txnOf (txnBatches 0 [] xs) j = txnOf (txnBatches 0 [] xs) i) \<and>
         (\<forall>i. Suc i < length xs \<longrightarrow> fst (xs ! i) \<noteq> 0 \<longrightarrow> fst (xs ! i) < fst (xs ! Suc i) \<longrightarrow>
            txnOf (txnBatches 0 [] xs) (Suc i) = Suc (txnOf (txnBatches 0 [] xs) i))"
proof -
  have a: "applyEventsToEtcd kv evs s = commitAll kv (map (map snd) (txnBatches 0 [] xs)) s"
    using applyEventsLoop_batches[OF assms, of kv 0 "[]" s] by (simp add: applyEventsToEtcd_def)
  have b: "concat (txnBatches 0 [] xs) = xs"
    by (simp add: concat_txnBatches)
  have t: "txnOf (txnBatches 0 [] xs) i = commitsUpTo 0 (map fst xs) i" if "i < length xs" for i
    using txnOf_txnBatches[OF that, of 0 "[]"] by simp
  have c: "txnOf (txnBatches 0 [] xs) j = txnOf (txnBatches 0 [] xs) i"
    if "sorted (map fst xs)" "i \<le> j" "j < length xs" "fst (xs ! i) = fst (xs ! j)" for i j
  proof -
    have "commitsUpTo 0 (map fst xs) j = commitsUpTo 0 (map fst xs) i"
      using commitsUpTo_equal[OF that(1) that(2), of 0] that by simp
    then show ?thesis using t that by simp
  qed
  have d: "txnOf (txnBatches 0 [] xs) (Suc i) = Suc (txnOf (txnBatches 0 [] xs) i)"
    if "Suc i < length xs" "fst (xs ! i) \<noteq> 0" "fst (xs ! i) < fst (xs ! Suc i)" for i
    using commitsUpTo_Suc[of i "map fst xs" 0] t[of i] t[of "Suc i"] that by simp
  show ?thesis using a b c d by blast
qed

theorem applyEventsToEtcd_transactions_witness:
  "map eventOp [putAt ''a'' 4, deleteAt ''b'' 4, putAt ''c'' 5] =
     map Some [(4, OpPut ''a'' ''v''), (4, OpDelete ''b''), (5, OpPut ''c'' ''v'')] \<and>
   applyEventsToEtcd simKV [putAt ''a'' 4, deleteAt ''b'' 4, putAt ''c'' 5] (simWorld 3 []) =
     ((simWorld 3 [])\<lparr>etcdRevision := 5,
        etcdLog := [[OpPut ''a'' ''v'', OpDelete ''b''], [OpPut ''c'' ''v'']]\<rparr>, Ok ()) \<and>
   txnOf (txnBatches 0 [] [(4, OpPut ''a'' ''v''), (4, OpDelete ''b''), (5, OpPut ''c'' ''v'')]) 1 = 0 \<and>
   txnOf (txnBatches 0 [] [(4, OpPut ''a'' ''v''), (4, OpDelete ''b''), (5, OpPut ''c'' ''v'')]) 2 = 1"
  using applyEventsToEtcd_transactions [of "[putAt ''a'' 4, deleteAt ''b'' 4, putAt ''c'' 5]"
      "[(4, OpPut ''a'' ''v''), (4, OpDelete ''b''), (5, OpPut ''c'' ''v'')]" simKV "simWorld 3 []"]
  by (simp add: eventOp_def putAt_def deleteAt_def PUT_def DELETE_def simKV_def simWorld_def)

text \<open>
  The claim as first stated, for every event list, fails on the events with
  modRevisions 0, 2, 1, 2: the step from 0 to 2 starts no transaction, and the two
  events of modRevision 2 commit in different transactions.
\<close>

theorem applyEventsToEtcd_transactions_counterexample:
  "applyEventsToEtcd simKV [putAt ''a'' 0, putAt ''b'' 2, putAt ''c'' 1, putAt ''d'' 2] (simWorld 1 []) =
     ((simWorld 1 [])\<lparr>etcdRevision := 3,
        etcdLog := [[OpPut ''a'' ''v'', OpPut ''b'' ''v'', OpPut ''c'' ''v''], [OpPut ''d'' ''v'']]\<rparr>,
      Ok ())"
  by (simp add: applyEventsToEtcd_def putAt_def PUT_def DELETE_def simKV_def simWorld_def)

subsection \<open>readSnapshotContentsFromReadCloser: the trailing hash\<close>

text \<open>
  C4. For every delta blob, after the optional decompression,
  \<^verbatim>\<open>readSnapshotContentsFromReadCloser\<close> fails when the total length is at most 32;
  otherwise it splits the buffer into the payload \<open>buf[:len-32]\<close> and the trailing
  hash \<open>buf[len-32:]\<close>, recomputes SHA-256 over the payload, fails iff the recomputed
  hash differs from the trailing hash, and on success returns exactly the payload.
\<close>

theorem readSnapshotContents_integrity:
  assumes "getNormalizedSnapshotReadCloser codec rc snap = (Some (ReadCloser buf None), wc, pol, None)"
  shows "(length buf \<le> 32 \<longrightarrow> readSnapshotContentsFromReadCloser codec rc snap = Failed MissingHash) \<and>
         (32 < length buf \<longrightarrow>
            ((\<exists>err. readSnapshotContentsFromReadCloser codec rc snap = Failed err) \<longleftrightarrow>
               sha256Sum codec (take (length buf - 32) buf) \<noteq> drop (length buf - 32) buf) \<and>
            (sha256Sum codec (take (length buf - 32) buf) \<noteq> drop (length buf - 32) buf \<longrightarrow>
               readSnapshotContentsFromReadCloser codec rc snap =
                 Failed (HashMismatch (drop (length buf - 32) buf)
                   (sha256Sum codec (take (length buf - 32) buf)))) \<and>
            (sha256Sum codec (take (length buf - 32) buf) = drop (length buf - 32) buf \<longrightarrow>
               readSnapshotContentsFromReadCloser codec rc snap = Ok (take (length buf - 32) buf)))"
proof -
  have n: "nat (int (length buf) - 32) = length buf - 32" by simp
  show ?thesis
    using assms by (auto simp: readSnapshotContentsFromReadCloser_def sha256Size_def Let_def n)
qed

theorem readSnapshotContents_integrity_witness:
  "getNormalizedSnapshotReadCloser simCodec (Some (ReadCloser (7 # replicate 32 0) None)) (simSnap ''d'' 7)
     = (Some (ReadCloser (7 # replicate 32 0) None), False, [], None) \<and>
   readSnapshotContentsFromReadCloser simCodec (Some (ReadCloser (7 # replicate 32 0) None)) (simSnap ''d'' 7)
     = Ok [7] \<and>
   getNormalizedSnapshotReadCloser simCodec (Some (ReadCloser (replicate 32 0) None)) (simSnap ''d'' 7)
     = (Some (ReadCloser (replicate 32 0) None), False, [], None) \<and>
   readSnapshotContentsFromReadCloser simCodec (Some (ReadCloser (replicate 32 0) None)) (simSnap ''d'' 7)
     = Failed MissingHash"
  using readSnapshotContents_integrity [of simCodec "Some (ReadCloser (7 # replicate 32 0) None)"
      "simSnap ''d'' 7" "7 # replicate 32 0" False "[]"]
    readSnapshotContents_integrity [of simCodec "Some (ReadCloser (replicate 32 0) None)"
      "simSnap ''d'' 7" "replicate 32 0" False "[]"]
  by (simp add: getNormalizedSnapshotReadCloser_def simCodec_def simSnap_def)

subsection \<open>verifySnapshotRevision\<close>

text \<open>
  C5 (as amended). After applying the events of a delta snapshot whose handle records
  the last revision \<open>L\<close>, the engine queries etcd with \<^verbatim>\<open>Get("foo")\<close> and, when the query
  answers, returns a revision-mismatch error iff the revision of the response header
  differs from \<open>L\<close>; on a match \<^verbatim>\<open>applyEventsAndVerify\<close> returns nil.
\<close>

theorem applyEventsAndVerify_revision:
  assumes "applyEventsToEtcd kv events s = (s1, Ok ())"
    and "Get kv ''foo'' False s1 = (s2, Inr etcdRev)"
  shows "verifySnapshotRevision kv snap s1 =
           (s2, if etcdRev \<noteq> LastRevision snap then Failed (RevisionMismatch (LastRevision snap) etcdRev)
                else Ok ()) \<and>
         applyEventsAndVerify kv events snap s =
           (s2, if etcdRev \<noteq> LastRevision snap
                then Failed (Wrapped (''snapshot revision verification failed for delta snapshot '' @ SnapName snap)
                               (RevisionMismatch (LastRevision snap) etcdRev))
                else Ok ())"
  using assms by (auto simp: applyEventsAndVerify_def verifySnapshotRevision_def)

theorem applyEventsAndVerify_revision_witness:
  "applyEventsToEtcd simKV [putAt ''a'' 6] (simWorld 5 []) =
     ((simWorld 5 [])\<lparr>etcdRevision := 6, etcdLog := [[OpPut ''a'' ''v'']]\<rparr>, Ok ()) \<and>
   Get simKV ''foo'' False ((simWorld 5 [])\<lparr>etcdRevision := 6, etcdLog := [[OpPut ''a'' ''v'']]\<rparr>) =
     ((simWorld 5 [])\<lparr>etcdRevision := 6, etcdLog := [[OpPut ''a'' ''v'']]\<rparr>, Inr 6) \<and>
   applyEventsAndVerify simKV [putAt ''a'' 6] (simSnap ''d'' 6) (simWorld 5 []) =
     ((simWorld 5 [])\<lparr>etcdRevision := 6, etcdLog := [[OpPut ''a'' ''v'']]\<rparr>, Ok ())"
  using applyEventsAndVerify_revision [of simKV "[putAt ''a'' 6]" "simWorld 5 []"
      "(simWorld 5 [])\<lparr>etcdRevision := 6, etcdLog := [[OpPut ''a'' ''v'']]\<rparr>"
      "(simWorld 5 [])\<lparr>etcdRevision := 6, etcdLog := [[OpPut ''a'' ''v'']]\<rparr>" 6 "simSnap ''d'' 6"]
  by (simp add: applyEventsToEtcd_def putAt_def PUT_def DELETE_def simKV_def simSnap_def simWorld_def)

text \<open>
  The claim as first stated takes \<open>L\<close> from the last event. A delta whose only event has
  modRevision 6, under a handle that records 7, brings etcd to revision 6, equal to the
  modRevision of the last event, and the engine returns the mismatch error.
\<close>

theorem applyEventsAndVerify_revision_counterexample:
  "eventRev (last [putAt ''a'' 6]) = Some 6 \<and>
   applyEventsAndVerify simKV [putAt ''a'' 6] (simSnap ''d'' 7) (simWorld 5 []) =
     ((simWorld 5 [])\<lparr>etcdRevision := 6, etcdLog := [[OpPut ''a'' ''v'']]\<rparr>,
      Failed (Wrapped ''snapshot revision verification failed for delta snapshot d'' (RevisionMismatch 7 6)))"
  by (simp add: applyEventsAndVerify_def verifySnapshotRevision_def applyEventsToEtcd_def eventRev_def
      putAt_def PUT_def DELETE_def simKV_def simSnap_def simWorld_def)

subsection \<open>applyFirstDeltaSnapshot: the overlap with the full snapshot\<close>

lemma findNewRevisionIndex_least:
  "j < length events \<Longrightarrow> eventRev (events ! j) = Some r \<Longrightarrow> lastRevision < r \<Longrightarrow>
   \<forall>i<j. \<exists>r'. eventRev (events ! i) = Some r' \<and> r' \<le> lastRevision \<Longrightarrow>
   findNewRevisionIndex events lastRevision index = Ok (index + j)"
proof (induction events arbitrary: j index)
  case Nil then show ?case by simp
next
  case (Cons e es)
  show ?case
  proof (cases j)
    case 0 then show ?thesis using Cons.prems by simp
  next
    case (Suc k)
    from Cons.prems(4) Suc obtain r0 where r0: "eventRev e = Some r0" "r0 \<le> lastRevision" by fastforce
    have "\<forall>i<k. \<exists>r'. eventRev (es ! i) = Some r' \<and> r' \<le> lastRevision"
      using Cons.prems(4) Suc by fastforce
    then have "findNewRevisionIndex es lastRevision (Suc index) = Ok (Suc index + k)"
      using Cons.IH[of k "Suc index"] Cons.prems Suc by simp
    then show ?thesis using r0 Suc by simp
  qed
qed

text \<open>
  With \<open>R\<close> the latest revision of the transient etcd and \<open>S\<close> the last revision of the
  first delta: if \<open>R = S\<close> the first delta is skipped, no event is applied; otherwise,
  when the event list has an event of modRevision greater than \<open>R\<close>, the events applied
  are exactly \<open>events[j:]\<close>, \<open>j\<close> the smallest index with \<open>events[j].modRevision > R\<close>.
\<close>

theorem applyFirstDeltaSnapshot_overlap:
  assumes "Fetch store snap s = (s1, rc, None)"
    and "readSnapshotContentsFromReadCloser codec rc snap = Ok eventsData"
    and "jsonUnmarshal codec eventsData = Inr events"
    and "Get kv [] True s1 = (s2, Inr R)"
  shows "(R = LastRevision snap \<longrightarrow> applyFirstDeltaSnapshot store codec kv snap s = (s2, Ok ())) \<and>
         (R \<noteq> LastRevision snap \<longrightarrow>
            (\<forall>j r. j < length events \<longrightarrow> eventRev (events ! j) = Some r \<longrightarrow> R < r \<longrightarrow>
               (\<forall>i<j. \<exists>r'. eventRev (events ! i) = Some r' \<and> r' \<le> R) \<longrightarrow>
               applyFirstDeltaSnapshot store codec kv snap s = applyEventsToEtcd kv (drop j events) s2))"
proof -
  have "applyFirstDeltaSnapshot store codec kv snap s = applyEventsToEtcd kv (drop j events) s2"
    if "R \<noteq> LastRevision snap" "j < length events" "eventRev (events ! j) = Some r" "R < r"
      "\<forall>i<j. \<exists>r'. eventRev (events ! i) = Some r' \<and> r' \<le> R" for j r
    using findNewRevisionIndex_least[OF that(2-5), of 0] assms that(1)
    by (simp add: applyFirstDeltaSnapshot_def)
  moreover have "R = LastRevision snap \<longrightarrow> applyFirstDeltaSnapshot store codec kv snap s = (s2, Ok ())"
    using assms by (simp add: applyFirstDeltaSnapshot_def)
  ultimately show ?thesis by blast
qed


theorem applyFirstDeltaSnapshot_overlap_witness:
  "applyFirstDeltaSnapshot (simStore ([5, 6, 7] @ replicate 32 0)) simCodec simKV (simSnap ''d'' 7)
       (simWorld 5 []) =
     applyEventsToEtcd simKV (drop 1 [putAt ''k'' 5, putAt ''k'' 6, putAt ''k'' 7]) (simWorld 5 []) \<and>
   applyEventsToEtcd simKV (drop 1 [putAt ''k'' 5, putAt ''k'' 6, putAt ''k'' 7]) (simWorld 5 []) =
     ((simWorld 5 [])\<lparr>etcdRevision := 7, etcdLog := [[OpPut ''k'' ''v''], [OpPut ''k'' ''v'']]\<rparr>, Ok ()) \<and>
   applyFirstDeltaSnapshot (simStore ([5, 6, 7] @ replicate 32 0)) simCodec simKV (simSnap ''d'' 7)
       (simWorld 7 []) =
     (simWorld 7 [], Ok ())"
proof -
  let ?evs = "[putAt ''k'' 5, putAt ''k'' 6, putAt ''k'' 7]"
  let ?store = "simStore ([5, 6, 7] @ replicate 32 0) :: SimWorld SnapStore"
  let ?rc = "Some (ReadCloser ([5, 6, 7] @ replicate 32 0) None)"
  have f: "Fetch ?store (simSnap ''d'' 7) st = (st, ?rc, None)" for st
    by (simp add: simStore_def)
  have r: "readSnapshotContentsFromReadCloser simCodec ?rc (simSnap ''d'' 7) = Ok [5, 6, 7]"
    by (simp add: readSnapshotContentsFromReadCloser_def getNormalizedSnapshotReadCloser_def
        simCodec_def simSnap_def sha256Size_def)
  have u: "jsonUnmarshal simCodec [5, 6, 7] = Inr ?evs"
    by (simp add: simCodec_def)
  have g: "Get simKV [] True (simWorld n []) = (simWorld n [], Inr n)" for n
    by (simp add: simKV_def simWorld_def)
  have "applyFirstDeltaSnapshot ?store simCodec simKV (simSnap ''d'' 7) (simWorld 5 []) =
          applyEventsToEtcd simKV (drop 1 ?evs) (simWorld 5 [])"
    using applyFirstDeltaSnapshot_overlap [OF f r u g, THEN conjunct2, rule_format, of 5 1 6]
    by (simp add: simSnap_def eventRev_def putAt_def)
  moreover have "applyEventsToEtcd simKV (drop 1 ?evs) (simWorld 5 []) =
          ((simWorld 5 [])\<lparr>etcdRevision := 7, etcdLog := [[OpPut ''k'' ''v''], [OpPut ''k'' ''v'']]\<rparr>, Ok ())"
    by (simp add: applyEventsToEtcd_def putAt_def PUT_def DELETE_def simKV_def simWorld_def)
  moreover have "applyFirstDeltaSnapshot ?store simCodec simKV (simSnap ''d'' 7) (simWorld 7 []) =
          (simWorld 7 [], Ok ())"
    using applyFirstDeltaSnapshot_overlap [OF f r u g, THEN conjunct1, of 7]
    by (simp add: simSnap_def)
  ultimately show ?thesis by blast
qed

text \<open>
  C3, on the code as it is. With \<open>R = 10\<close>, \<open>S = 7\<close> and a first delta of one event of
  modRevision 5, no event is newer than \<open>R\<close> and there is no index \<open>j\<close>: the scan ends
  without a \<^verbatim>\<open>break\<close>, \<^verbatim>\<open>newRevisionIndex\<close> keeps the 0 it was declared with, and
  \<open>events[0:]\<close>, the event the transient etcd already holds, is committed again. The
  revision of the etcd is then 11 and \<^verbatim>\<open>Restore\<close> returns the mismatch with the 7 of the
  delta. With \<open>R = 7\<close> the same delta is skipped.
\<close>

theorem applyFirstDeltaSnapshot_reapplied:
  "jsonUnmarshal simCodec [5] = Inr [putAt ''k'' 5] \<and> eventRev (putAt ''k'' 5) = Some 5 \<and>
   findNewRevisionIndex [putAt ''k'' 5] 10 0 = Ok 0 \<and>
   applyFirstDeltaSnapshot (simStore (5 # replicate 32 0)) simCodec simKV (simSnap ''d'' 7)
       (simWorld 10 []) =
     ((simWorld 10 [])\<lparr>etcdRevision := 11, etcdLog := [[OpPut ''k'' ''v'']]\<rparr>, Ok ()) \<and>
   applyFirstDeltaSnapshot (simStore (5 # replicate 32 0)) simCodec simKV (simSnap ''d'' 7)
       (simWorld 7 []) =
     (simWorld 7 [], Ok ()) \<and>
   Restore simDeps (simStore (5 # replicate 32 0)) simHost (\<lambda>ro snaps eps quota run. (run, Ok ()))
       (simRestoreOptions [simSnap ''d'' 7]) False (simWorld 10 [], []) =
     (((simWorld 10 [])\<lparr>etcdRevision := 11, etcdLog := [[OpPut ''k'' ''v'']]\<rparr>, [EmbeddedEtcdStarted]),
      Ok (Some ''127.0.0.1:2379'', Some (RevisionMismatch 7 11)))"
  by (simp add: Restore_def RestoreBody_def applyDeltaSnapshots_def restoreFromBaseSnapshot_def
        applyFirstDeltaSnapshot_def readSnapshotContentsFromReadCloser_def
        getNormalizedSnapshotReadCloser_def sha256Size_def verifySnapshotRevision_def
        applyEventsToEtcd_def eventRev_def
        simRestoreOptions_def simDeps_def simOS_def simCodec_def simKV_def
        simStore_def simHost_def simSnap_def simWorld_def demoConfig_def putAt_def PUT_def DELETE_def)

subsection \<open>MakeEtcdLeanAndCheckAlarm: the alarm and the disarm\<close>





lemmas sim_defs = simDeps_def simKV_def simMaintenance_def simChannels_def simOS_def simCodec_def
  simFloat_def simWorld_def simSnap_def simSnaps_def simPath_def simDisk_def simInfo_def putAt_def
  simApplierState_def simKVNoCompact_def

lemmas applier_defs = applySnaps_def initApplier_def onApplierInput_def applyOne_def afterApply_def
  readSnapshotContentsFromFile_def readSnapshotContentsFromReadCloser_def
  getNormalizedSnapshotReadCloser_def sha256Size_def applyEventsAndVerify_def
  verifySnapshotRevision_def applyEventsToEtcd_def MakeEtcdLeanAndCheckAlarm_def
  dbSizeCrossesThreshold_def thresholdPercentageForDBSizeAlarm_def handleAlarm_def
  periodicallyMakeEtcdLeanDeltaSnapshotInterval_def PUT_def DELETE_def

lemmas sim_simps = sim_defs applier_defs map_replicate_trivial[symmetric] upt_rec


subsection \<open>applySnaps: the order of application\<close>


lemma alarmOnly_Nil: "alarmOnly []"
  by (simp add: alarmOnly_def)

lemma alarmOnly_append: "alarmOnly (a @ b) \<longleftrightarrow> alarmOnly a \<and> alarmOnly b"
  by (auto simp: alarmOnly_def)


lemma alarmOnly_ErrSent: "alarmOnly ext \<Longrightarrow> ErrSent e \<notin> set ext"
  by (auto simp: alarmOnly_def)

lemma alarmOnly_LeanCalled: "alarmOnly ext \<Longrightarrow> LeanCalled r \<notin> set ext"
  by (auto simp: alarmOnly_def)

lemma raiseAlarms_alarmOnly:
  "raiseAlarms ch mt eps (w, tr) = ((w', tr'), r) \<Longrightarrow> \<exists>ext. tr' = tr @ ext \<and> alarmOnly ext"
proof (induction eps arbitrary: w tr)
  case Nil
  then show ?case by (simp add: alarmOnly_def)
next
  case (Cons ep eps)
  show ?case
  proof (cases "sendAlarm ch ep w")
    case None
    then show ?thesis using Cons.prems by (simp add: alarmOnly_def)
  next
    case (Some w1)
    show ?thesis
    proof (cases "recvDisarm ch w1")
      case None
      then have "tr' = tr @ [AlarmSent ep]" using Cons.prems Some by simp
      then show ?thesis by (simp add: alarmOnly_def)
    next
      case Some2: (Some p)
      obtain w2 b where p: "p = (w2, b)" by (cases p)
      show ?thesis
      proof (cases b)
        case False
        then have "tr' = tr @ [AlarmSent ep, DisarmReceived False]"
          using Cons.prems Some Some2 p by simp
        then show ?thesis by (simp add: alarmOnly_def)
      next
        case True
        obtain w3 st where st: "Status mt ep w2 = (w3, st)" by (cases "Status mt ep w2")
        have "raiseAlarms ch mt eps (w3, tr @ [AlarmSent ep, DisarmReceived True]) = ((w', tr'), r)"
          using Cons.prems Some Some2 p True st by simp
        from Cons.IH[OF this] obtain ext where
          "tr' = (tr @ [AlarmSent ep, DisarmReceived True]) @ ext" "alarmOnly ext" by blast
        then have "tr' = tr @ ([AlarmSent ep, DisarmReceived True] @ ext) \<and>
                   alarmOnly ([AlarmSent ep, DisarmReceived True] @ ext)"
          by (simp add: alarmOnly_def)
        then show ?thesis by blast
      qed
    qed
  qed
qed

lemma MakeEtcdLean_alarmOnly:
  assumes "MakeEtcdLeanAndCheckAlarm fl revision eps q ch kv mt (w, tr) = ((w', tr'), r)"
  shows "\<exists>ext. tr' = tr @ ext \<and> alarmOnly ext"
proof -
  have triv: "\<exists>ext. tr = tr @ ext \<and> alarmOnly ext" by (simp add: alarmOnly_def)
  show ?thesis
    using assms triv
    by (auto simp del: raiseAlarms.simps simp: MakeEtcdLeanAndCheckAlarm_def
        split: prod.splits option.splits list.splits sum.splits if_splits
        dest: raiseAlarms_alarmOnly)
qed
























subsection \<open>applySnaps: the lean-keeping trigger\<close>

text \<open>
  C7 (as amended). The counter of applied deltas starts at 1. After every successful
  application of a delta but that of the last remaining one, the applier increments the
  counter, and the lean-keeper is invoked exactly when the counter is then divisible by
  10 or the previous lean attempt failed; a failure of the lean call puts nothing on the
  error channel and does not end the applier, it only sets the retry flag, and a
  success clears it. After the last remaining delta the applier sends \<open>nil\<close> and returns,
  the counter as it was.
\<close>

theorem afterApply_leanKeeping:
  assumes run: "afterApply d snaps eps quota i st = (st', fl)"
  shows "numberOfDeltaSnapApplied (initApplier snaps w) = 1 \<and>
     (nextSnapIndexToApply st + 1 = int (length snaps) \<longrightarrow>
        fl = Return \<and> trace st' = trace st @ [ErrSent None] \<and>
        numberOfDeltaSnapApplied st' = numberOfDeltaSnapApplied st) \<and>
     (nextSnapIndexToApply st + 1 \<noteq> int (length snaps) \<longrightarrow>
        numberOfDeltaSnapApplied st' = numberOfDeltaSnapApplied st + 1 \<and>
        (\<exists>new. trace st' = trace st @ new \<and>
           ((\<exists>r. LeanCalled r \<in> set new) \<longleftrightarrow>
              numberOfDeltaSnapApplied st' mod 10 = 0 \<or> prevAttemptToMakeEtcdLeanFailed st) \<and>
           (\<forall>e. ErrSent e \<notin> set new)) \<and>
        fl \<noteq> Return \<and>
        (\<not> (numberOfDeltaSnapApplied st' mod 10 = 0 \<or> prevAttemptToMakeEtcdLeanFailed st) \<longrightarrow>
           fl = Next \<and> prevAttemptToMakeEtcdLeanFailed st' = prevAttemptToMakeEtcdLeanFailed st) \<and>
        (numberOfDeltaSnapApplied st' mod 10 = 0 \<or> prevAttemptToMakeEtcdLeanFailed st \<longrightarrow>
           (case snd (MakeEtcdLeanAndCheckAlarm (depFloat d) (LastRevision (snaps ! i)) eps quota
                        (depChannels d) (depKV d) (depMaintenance d)
                        (world st, trace st @ [LeanCalled (LastRevision (snaps ! i))])) of
              Failed err \<Rightarrow> fl = Next \<and> prevAttemptToMakeEtcdLeanFailed st'
            | Ok u \<Rightarrow> fl = Next \<and> \<not> prevAttemptToMakeEtcdLeanFailed st'
            | Panic \<Rightarrow> fl = Crash
            | Blocked \<Rightarrow> fl = Stuck)))"
proof -
  have init: "numberOfDeltaSnapApplied (initApplier snaps w) = 1"
    by (simp add: initApplier_def)
  let ?last = "nextSnapIndexToApply st + 1 = int (length snaps)"
  let ?n = "numberOfDeltaSnapApplied st + 1"
  let ?cond = "?n mod 10 = 0 \<or> prevAttemptToMakeEtcdLeanFailed st"
  let ?rev = "LastRevision (snaps ! i)"
  let ?st2 = "st\<lparr>nextSnapIndexToApply := nextSnapIndexToApply st + 1, numberOfDeltaSnapApplied := ?n\<rparr>"
  let ?lean = "MakeEtcdLeanAndCheckAlarm (depFloat d) ?rev eps quota (depChannels d) (depKV d)
                 (depMaintenance d) (world st, trace st @ [LeanCalled ?rev])"
  have last: "fl = Return \<and> trace st' = trace st @ [ErrSent None] \<and>
              numberOfDeltaSnapApplied st' = numberOfDeltaSnapApplied st" if ?last
    using run that by (auto simp: afterApply_def Let_def)
  have quiet: "st' = ?st2 \<and> fl = Next" if "\<not> ?last" "\<not> ?cond"
    using run that by (auto simp: afterApply_def Let_def periodicallyMakeEtcdLeanDeltaSnapshotInterval_def)
  obtain w' tr' r where lean: "?lean = ((w', tr'), r)" by (metis prod.exhaust)
  from MakeEtcdLean_alarmOnly[OF lean] obtain ext where
    ext: "tr' = (trace st @ [LeanCalled ?rev]) @ ext" "alarmOnly ext" by blast
  have res: "(st', fl) = (case r of
        Failed err \<Rightarrow> (?st2\<lparr>world := w', trace := tr', prevAttemptToMakeEtcdLeanFailed := True\<rparr>, Next)
      | Ok u \<Rightarrow> (?st2\<lparr>world := w', trace := tr', prevAttemptToMakeEtcdLeanFailed := False\<rparr>, Next)
      | Panic \<Rightarrow> (?st2\<lparr>world := w', trace := tr'\<rparr>, Crash)
      | Blocked \<Rightarrow> (?st2\<lparr>world := w', trace := tr'\<rparr>, Stuck))" if "\<not> ?last" ?cond
    using run that lean
    by (simp add: afterApply_def Let_def periodicallyMakeEtcdLeanDeltaSnapshotInterval_def)
  have noisy: "numberOfDeltaSnapApplied st' = ?n \<and> trace st' = trace st @ (LeanCalled ?rev # ext) \<and>
               fl \<noteq> Return \<and>
               (case r of Failed err \<Rightarrow> fl = Next \<and> prevAttemptToMakeEtcdLeanFailed st'
                  | Ok u \<Rightarrow> fl = Next \<and> \<not> prevAttemptToMakeEtcdLeanFailed st'
                  | Panic \<Rightarrow> fl = Crash | Blocked \<Rightarrow> fl = Stuck)" if "\<not> ?last" ?cond
    using res[OF that] ext(1) by (cases r) auto
  have newq: "\<exists>new. trace st' = trace st @ new \<and>
           ((\<exists>r. LeanCalled r \<in> set new) \<longleftrightarrow> ?cond) \<and> (\<forall>e. ErrSent e \<notin> set new)" if nl: "\<not> ?last"
  proof (cases ?cond)
    case True
    have "trace st' = trace st @ (LeanCalled ?rev # ext) \<and>
          ((\<exists>r. LeanCalled r \<in> set (LeanCalled ?rev # ext)) \<longleftrightarrow> ?cond) \<and>
          (\<forall>e. ErrSent e \<notin> set (LeanCalled ?rev # ext))"
      using noisy[OF nl True] True alarmOnly_ErrSent[OF ext(2)] by auto
    then show ?thesis by (rule exI[of _ "LeanCalled ?rev # ext"])
  next
    case False
    have "trace st' = trace st @ [] \<and> ((\<exists>r. LeanCalled r \<in> set []) \<longleftrightarrow> ?cond) \<and>
          (\<forall>e. ErrSent e \<notin> set [])"
      using quiet[OF nl False] False by simp
    then show ?thesis by (rule exI[of _ "[]"])
  qed
  have cnt: "numberOfDeltaSnapApplied st' = ?n" if nl: "\<not> ?last"
    using quiet[OF nl] noisy[OF nl] by (cases ?cond) auto
  have noret: "fl \<noteq> Return" if nl: "\<not> ?last"
    using quiet[OF nl] noisy[OF nl] by (cases ?cond) auto
  have r: "snd ?lean = r" using lean by simp
  show ?thesis
    apply (intro conjI impI)
    subgoal by (rule init)
    subgoal using last by blast
    subgoal using last by blast
    subgoal using last by blast
    subgoal using cnt by blast
    subgoal using newq cnt by simp
    subgoal using noret by blast
    subgoal using quiet cnt by simp
    subgoal using quiet cnt by simp
    subgoal using noisy cnt unfolding r by simp
    done
qed

theorem afterApply_leanKeeping_witness:
  "numberOfDeltaSnapApplied (initApplier (simSnaps 12) (simWorld 5 (simDisk 12))) = 1 \<and>
   afterApply simDeps (simSnaps 12) [''ep''] 100 8 (simApplierState 12 8) =
     ((simApplierState 12 8)\<lparr>nextSnapIndexToApply := 9, numberOfDeltaSnapApplied := 10,
        trace := map SnapApplied [0..<8] @ [LeanCalled 14]\<rparr>, Next) \<and>
   afterApply (simDeps\<lparr>depKV := simKVNoCompact\<rparr>) (simSnaps 12) [''ep''] 100 8 (simApplierState 12 8) =
     ((simApplierState 12 8)\<lparr>nextSnapIndexToApply := 9, numberOfDeltaSnapApplied := 10,
        trace := map SnapApplied [0..<8] @ [LeanCalled 14],
        prevAttemptToMakeEtcdLeanFailed := True\<rparr>, Next) \<and>
   afterApply simDeps (simSnaps 12) [''ep''] 100 11 (simApplierState 12 11) =
     ((simApplierState 12 11)\<lparr>nextSnapIndexToApply := 12,
        trace := map SnapApplied [0..<11] @ [ErrSent None]\<rparr>, Return)"
proof -
  have run1: "afterApply simDeps (simSnaps 12) [''ep''] 100 8 (simApplierState 12 8) =
     ((simApplierState 12 8)\<lparr>nextSnapIndexToApply := 9, numberOfDeltaSnapApplied := 10,
        trace := map SnapApplied [0..<8] @ [LeanCalled 14]\<rparr>, Next)"
    by (simp add: sim_simps)
  have run2: "afterApply (simDeps\<lparr>depKV := simKVNoCompact\<rparr>) (simSnaps 12) [''ep''] 100 8 (simApplierState 12 8) =
     ((simApplierState 12 8)\<lparr>nextSnapIndexToApply := 9, numberOfDeltaSnapApplied := 10,
        trace := map SnapApplied [0..<8] @ [LeanCalled 14],
        prevAttemptToMakeEtcdLeanFailed := True\<rparr>, Next)"
    by (simp add: sim_simps)
  have run3: "afterApply simDeps (simSnaps 12) [''ep''] 100 11 (simApplierState 12 11) =
     ((simApplierState 12 11)\<lparr>nextSnapIndexToApply := 12,
        trace := map SnapApplied [0..<11] @ [ErrSent None]\<rparr>, Return)"
    by (simp add: sim_simps)
  have "numberOfDeltaSnapApplied (initApplier (simSnaps 12) (simWorld 5 (simDisk 12))) = 1"
    using afterApply_leanKeeping [OF run1] by (rule conjunct1)
  then show ?thesis using run1 run2 run3 by (intro conjI)
qed

text \<open>
  The claim as first stated has the counter incremented, and the lean-keeper invoked,
  after every successful application. With nine remaining deltas, announced in order
  and all applied, the counter ends at 9 and the lean-keeper is never called: the
  tenth delta applied is the last one.
\<close>

lemma simApplier_steps:
  "onApplierInput simDeps (simSnaps 9) [''ep''] 100 (simInfo 0) (simApplierState 9 0) = (simApplierState 9 1, Next)"
  "onApplierInput simDeps (simSnaps 9) [''ep''] 100 (simInfo 1) (simApplierState 9 1) = (simApplierState 9 2, Next)"
  "onApplierInput simDeps (simSnaps 9) [''ep''] 100 (simInfo 2) (simApplierState 9 2) = (simApplierState 9 3, Next)"
  "onApplierInput simDeps (simSnaps 9) [''ep''] 100 (simInfo 3) (simApplierState 9 3) = (simApplierState 9 4, Next)"
  "onApplierInput simDeps (simSnaps 9) [''ep''] 100 (simInfo 4) (simApplierState 9 4) = (simApplierState 9 5, Next)"
  "onApplierInput simDeps (simSnaps 9) [''ep''] 100 (simInfo 5) (simApplierState 9 5) = (simApplierState 9 6, Next)"
  "onApplierInput simDeps (simSnaps 9) [''ep''] 100 (simInfo 6) (simApplierState 9 6) = (simApplierState 9 7, Next)"
  "onApplierInput simDeps (simSnaps 9) [''ep''] 100 (simInfo 7) (simApplierState 9 7) = (simApplierState 9 8, Next)"
  "onApplierInput simDeps (simSnaps 9) [''ep''] 100 (simInfo 8) (simApplierState 9 8) =
     ((simApplierState 9 8)\<lparr>world := world (simApplierState 9 9), nextSnapIndexToApply := 9,
        trace := map SnapApplied [0..<9] @ [ErrSent None],
        pathList := map simPath [0..<9]\<rparr>, Return)"
  by (simp_all add: sim_simps)

theorem afterApply_leanKeeping_counterexample:
  "applySnaps simDeps (simSnaps 9) [''ep''] 100
     [simInfo 0, simInfo 1, simInfo 2, simInfo 3, simInfo 4, simInfo 5, simInfo 6, simInfo 7, simInfo 8]
     (simWorld 5 (simDisk 9)) =
   (\<lparr>world = \<lparr>etcdRevision = 14, etcdLog = replicate 9 [OpPut ''k'' ''v''], etcdDbSize = 0,
              simFiles = [], simAlarmCh = [], simDefragmented = []\<rparr>,
     trace = [SnapApplied 0, SnapApplied 1, SnapApplied 2, SnapApplied 3, SnapApplied 4,
              SnapApplied 5, SnapApplied 6, SnapApplied 7, SnapApplied 8, ErrSent None],
     pathList = map simPath [0..<9],
     nextSnapIndexToApply = 9, numberOfDeltaSnapApplied = 9,
     prevAttemptToMakeEtcdLeanFailed = False\<rparr>, Return)"
proof -
  have init: "initApplier (simSnaps 9) (simWorld 5 (simDisk 9)) = simApplierState 9 0"
    by (simp add: sim_simps)
  have fin: "(simApplierState 9 8)\<lparr>world := world (simApplierState 9 9), nextSnapIndexToApply := 9,
        trace := map SnapApplied [0..<9] @ [ErrSent None], pathList := map simPath [0..<9]\<rparr> =
     \<lparr>world = \<lparr>etcdRevision = 14, etcdLog = replicate 9 [OpPut ''k'' ''v''], etcdDbSize = 0,
              simFiles = [], simAlarmCh = [], simDefragmented = []\<rparr>,
     trace = [SnapApplied 0, SnapApplied 1, SnapApplied 2, SnapApplied 3, SnapApplied 4,
              SnapApplied 5, SnapApplied 6, SnapApplied 7, SnapApplied 8, ErrSent None],
     pathList = map simPath [0..<9],
     nextSnapIndexToApply = 9, numberOfDeltaSnapApplied = 9,
     prevAttemptToMakeEtcdLeanFailed = False\<rparr>"
    by (simp add: simApplierState_def simDisk_def upt_rec)
  show ?thesis
    unfolding applySnaps_def init
    by (simp only: applySnapsLoop.simps simApplier_steps fin prod.case flow.case)
qed

subsection \<open>Restore without delta snapshots\<close>

text \<open>
  C9. For every \<^verbatim>\<open>RestoreOptions\<close> whose \<^verbatim>\<open>DeltaSnapList\<close> is empty, after a successful base
  restoration \<^verbatim>\<open>Restore\<close> returns no etcd and no error, and the embedded etcd is never
  started: the run adds nothing to the trace.
\<close>

theorem Restore_no_deltas:
  assumes "Config ro = Some c"
    and "MkdirAll (depOS d) (TempSnapshotsDir c) w = (w1, None)"
    and "restoreFromBaseSnapshot store (depOS d) (depCodec d) host ro w1 = (w2, Ok ())"
    and "DeltaSnapList ro = []"
    and "RemoveAll (depOS d) (TempSnapshotsDir c) w2 = (w3, removeErr)"
  shows "Restore d store host pipeline ro m (w, tr) = ((w3, tr), Ok (None, None)) \<and>
         (EmbeddedEtcdStarted \<in> set (snd (fst (Restore d store host pipeline ro m (w, tr)))) \<longleftrightarrow>
            EmbeddedEtcdStarted \<in> set tr)"
proof -
  have "RestoreBody d store host pipeline ro m (w1, tr) = ((w2, tr), Ok (None, None))"
    using assms(3,4) by (simp add: RestoreBody_def)
  then have "Restore d store host pipeline ro m (w, tr) = ((w3, tr), Ok (None, None))"
    using assms(1,2,5) by (simp add: Restore_def)
  then show ?thesis by simp
qed

theorem Restore_no_deltas_witness:
  "Restore simDeps (simStore (replicate 40 1)) simHost (\<lambda>ro snaps eps quota run. (run, Ok ()))
       (simRestoreOptions []) True (simWorld 0 [], []) =
     ((simWorld 0 [], []), Ok (None, None)) \<and>
   Restore simDeps (simStore ([6] @ replicate 32 0)) simHost (\<lambda>ro snaps eps quota run. (run, Ok ()))
       (simRestoreOptions [simSnap ''delta'' 6]) False (simWorld 5 [], []) =
     (((simWorld 5 [])\<lparr>etcdRevision := 6, etcdLog := [[OpPut ''k'' ''v'']]\<rparr>, [EmbeddedEtcdStarted]),
      Ok (Some ''127.0.0.1:2379'', None))"
proof -
  have c: "Config (simRestoreOptions []) = Some demoConfig" by (simp add: simRestoreOptions_def)
  have m: "MkdirAll (depOS simDeps) (TempSnapshotsDir demoConfig) (simWorld 0 []) = (simWorld 0 [], None)"
    by (simp add: simDeps_def simOS_def)
  have b: "restoreFromBaseSnapshot (simStore (replicate 40 1)) (depOS simDeps) (depCodec simDeps) simHost
        (simRestoreOptions []) (simWorld 0 []) = (simWorld 0 [], Ok ())"
    by (simp add: restoreFromBaseSnapshot_def simRestoreOptions_def simDeps_def simOS_def simCodec_def
        simStore_def simHost_def simSnap_def simWorld_def demoConfig_def)
  have e: "DeltaSnapList (simRestoreOptions []) = []" by (simp add: simRestoreOptions_def)
  have r: "RemoveAll (depOS simDeps) (TempSnapshotsDir demoConfig) (simWorld 0 []) = (simWorld 0 [], None)"
    by (simp add: simDeps_def simOS_def)
  have one: "Restore simDeps (simStore (replicate 40 1)) simHost (\<lambda>ro snaps eps quota run. (run, Ok ()))
       (simRestoreOptions []) True (simWorld 0 [], []) = ((simWorld 0 [], []), Ok (None, None))"
    using Restore_no_deltas [OF c m b e r] by (rule conjunct1)
  have two: "Restore simDeps (simStore ([6] @ replicate 32 0)) simHost (\<lambda>ro snaps eps quota run. (run, Ok ()))
       (simRestoreOptions [simSnap ''delta'' 6]) False (simWorld 5 [], []) =
     (((simWorld 5 [])\<lparr>etcdRevision := 6, etcdLog := [[OpPut ''k'' ''v'']]\<rparr>, [EmbeddedEtcdStarted]),
      Ok (Some ''127.0.0.1:2379'', None))"
    by (simp add: Restore_def RestoreBody_def applyDeltaSnapshots_def restoreFromBaseSnapshot_def
        applyFirstDeltaSnapshot_def readSnapshotContentsFromReadCloser_def
        getNormalizedSnapshotReadCloser_def sha256Size_def verifySnapshotRevision_def
        applyEventsToEtcd_def findNewRevisionIndex.simps eventRev_def
        simRestoreOptions_def simDeps_def simOS_def simCodec_def simKV_def
        simStore_def simHost_def simSnap_def simWorld_def demoConfig_def putAt_def PUT_def DELETE_def)
  show ?thesis using one two by (rule conjI)
qed

subsection \<open>fetchSnaps after an error\<close>

text \<open>
  C6, on the code as it is. A fetcher whose persisting fails (no file can be created)
  sends the error and the sentinel of index -1 and then, for the same delta, the path
  on the channel of locations and an \<^verbatim>\<open>ApplierInfo\<close> with the path and the index of the
  delta. A fetcher whose fetch fails and yields no reader sends the error and the
  sentinel and then panics in \<^verbatim>\<open>persistRawDeltaSnapshot\<close>, the file already created.
\<close>

theorem fetchSnaps_after_error:
  "fetchSnaps (simStore (6 # replicate 32 0)) simReadOnlyOS ''tmp''
       [(\<lparr>Snapshot = simSnap ''delta'' 6, FetcherSnapIndex = 0\<rparr>, None)] (simWorld 5 []) =
     ((simWorld 5 [],
       [ErrSent (Some (Wrapped ''failed to persist delta snapshot to temp file path tmp/delta''
                        (CreateTempFileFailed ''tmp/delta''))),
        ApplierInfoSent \<lparr>SnapFilePath = [], SnapIndex = - 1\<rparr>,
        LocationSent ''tmp/delta'',
        ApplierInfoSent \<lparr>SnapFilePath = ''tmp/delta'', SnapIndex = 0\<rparr>]),
      Return) \<and>
   fetchSnaps simBrokenStore simOS ''tmp''
       [(\<lparr>Snapshot = simSnap ''delta'' 6, FetcherSnapIndex = 0\<rparr>, None)] (simWorld 5 []) =
     (((simWorld 5 [])\<lparr>simFiles := [(''tmp/delta'', [])]\<rparr>,
       [ErrSent (Some (Wrapped ''failed to fetch delta snapshot from store delta''
                        (External ''connection refused''))),
        ApplierInfoSent \<lparr>SnapFilePath = [], SnapIndex = - 1\<rparr>]),
      Crash)"
  by (simp add: Let_def fetchSnaps_def fetchOne_def persistRawDeltaSnapshot_def simReadOnlyOS_def
      simBrokenStore_def simOS_def simStore_def simSnap_def simWorld_def)

end
